theory Spec2Isabelle
  imports Complex_Main
begin

section \<open>Data model of the scene manager\<close>

text \<open>
  The development embeds \<^verbatim>\<open>Source/SceneManager.cpp\<close>. The class keeps a fixed-size array
  \<^verbatim>\<open>m_textureIDs\<close> of tagged texture handles with the counter \<^verbatim>\<open>m_loadedTextures\<close>, a
  vector \<^verbatim>\<open>m_objectMaterials\<close> of tagged materials and a pointer \<^verbatim>\<open>m_pShaderManager\<close> to
  the shader runtime. Its methods talk to three collaborators that live outside the file:
  the image decoder (\<^verbatim>\<open>stbi_load\<close>), the OpenGL context and the shader manager. Each of
  them is a component of the explicit state, so that every call of the source is a
  state transformer here.

  A \<^verbatim>\<open>float\<close> is a \<^typ>\<open>real\<close>: rounding is outside the model. An \<^verbatim>\<open>int\<close> is an
  \<^typ>\<open>int\<close>; the only arithmetic on it is the increment of a counter that indexes an
  array, and the index leaves the array long before the increment could overflow.
\<close>

type_synonym GLuint = nat
type_synonym vec2 = "real \<times> real"
type_synonym vec3 = "real \<times> real \<times> real"

datatype vec4 = Vec4 real real real real

text \<open>A \<^verbatim>\<open>glm::mat4\<close> is stored by columns: \<^verbatim>\<open>m[c]\<close> is column \<open>c\<close>.\<close>

datatype mat4 = Mat4 vec4 vec4 vec4 vec4

record TEXTURE_INFO =
  ID :: GLuint
  tag :: string

record OBJECT_MATERIAL =
  diffuseColor :: vec3
  specularColor :: vec3
  shininess :: real
  tag :: string

text \<open>
  Indexing \<^verbatim>\<open>m_textureIDs\<close> outside its bounds, and calling through a null
  \<^verbatim>\<open>m_pShaderManager\<close>, are undefined behaviour in C++. The model makes both a result.
\<close>

datatype error = OutOfBounds | NullPointer

subsection \<open>The image decoder\<close>

text \<open>
  What \<^verbatim>\<open>stbi_load\<close> hands back: the dimensions and the channel count of the decoded
  file. The files that can be decoded are a parameter \<open>fs\<close> of the model; a path that
  is missing or unreadable decodes to \<open>None\<close> (the null pointer of the source).
\<close>

record image =
  width :: int
  height :: int
  colorChannels :: int

type_synonym filesystem = "string \<Rightarrow> image option"

definition stbi_load :: "filesystem \<Rightarrow> string \<Rightarrow> image option" where
  "stbi_load fs filename = fs filename"

subsection \<open>The OpenGL context\<close>

text \<open>
  The part of the OpenGL context that the scene manager drives: the texture names handed
  out so far, the active texture unit, the 2D texture bound on every unit, the number of
  units the hardware has, and the image uploaded to each texture. Sampling parameters and
  mip levels are not tracked: \<^verbatim>\<open>glTexParameteri\<close> and \<^verbatim>\<open>glGenerateMipmap\<close> leave every
  component below as it is, and so do the decoder's \<^verbatim>\<open>stbi_set_flip_vertically_on_load\<close>
  and \<^verbatim>\<open>stbi_image_free\<close>.
\<close>

datatype pixel_format = GL_RGB | GL_RGBA

record GLState =
  gl_names :: "GLuint list"
  gl_active :: nat
  gl_units :: "nat \<Rightarrow> GLuint"
  gl_max_units :: nat
  gl_images :: "GLuint \<Rightarrow> (pixel_format \<times> image) option"

text \<open>
  \<^verbatim>\<open>glGenTextures(1, &id)\<close> returns a name that is not in use and marks it used. Which
  unused name the driver picks is its own business; the model takes the successor of the
  largest name in use, which is never 0 (the default texture).
\<close>

definition fresh_name :: "GLuint list \<Rightarrow> GLuint" where
  "fresh_name names = Suc (foldr max names 0)"

definition glGenTextures :: "GLState \<Rightarrow> GLuint \<times> GLState" where
  "glGenTextures g =
     (let n = fresh_name (gl_names g) in (n, g\<lparr>gl_names := gl_names g @ [n]\<rparr>))"

text \<open>
  \<^verbatim>\<open>glActiveTexture(GL_TEXTURE0 + i)\<close> selects unit \<open>i\<close>; an enumerator beyond the last
  unit raises \<^verbatim>\<open>GL_INVALID_ENUM\<close> and leaves the active unit as it was. The argument here
  is the offset \<open>i\<close> from \<^verbatim>\<open>GL_TEXTURE0\<close>.
\<close>

definition glActiveTexture :: "int \<Rightarrow> GLState \<Rightarrow> GLState" where
  "glActiveTexture i g =
     (if 0 \<le> i \<and> nat i < gl_max_units g then g\<lparr>gl_active := nat i\<rparr> else g)"

text \<open>\<^verbatim>\<open>glBindTexture(GL_TEXTURE_2D, id)\<close> binds on the active unit.\<close>

definition glBindTexture :: "GLuint \<Rightarrow> GLState \<Rightarrow> GLState" where
  "glBindTexture t g = g\<lparr>gl_units := (gl_units g)(gl_active g := t)\<rparr>"

text \<open>\<^verbatim>\<open>glTexImage2D\<close> uploads to the texture bound on the active unit.\<close>

definition glTexImage2D :: "pixel_format \<Rightarrow> image \<Rightarrow> GLState \<Rightarrow> GLState" where
  "glTexImage2D fmt img g =
     g\<lparr>gl_images := (gl_images g)(gl_units g (gl_active g) := Some (fmt, img))\<rparr>"

subsection \<open>The shader manager\<close>

text \<open>
  Modelled from the spec: the class \<^verbatim>\<open>ShaderManager\<close> (its source is not part of the
  file), which the spec describes as "a small fixed set of named uniform slots". A shader
  state maps a uniform's name to the value last stored under it, and every setter stores
  its argument under the given name.
\<close>

datatype uniform =
    UInt int
  | UBool bool
  | UVec2 vec2
  | UVec3 vec3
  | UVec4 vec4
  | UMat4 mat4
  | USampler2D int

type_synonym ShaderManager = "string \<Rightarrow> uniform option"

definition setIntValue :: "string \<Rightarrow> int \<Rightarrow> ShaderManager \<Rightarrow> ShaderManager" where
  "setIntValue name v sh = sh(name \<mapsto> UInt v)"

definition setBoolValue :: "string \<Rightarrow> bool \<Rightarrow> ShaderManager \<Rightarrow> ShaderManager" where
  "setBoolValue name v sh = sh(name \<mapsto> UBool v)"

definition setVec2Value :: "string \<Rightarrow> vec2 \<Rightarrow> ShaderManager \<Rightarrow> ShaderManager" where
  "setVec2Value name v sh = sh(name \<mapsto> UVec2 v)"

definition setVec3Value :: "string \<Rightarrow> vec3 \<Rightarrow> ShaderManager \<Rightarrow> ShaderManager" where
  "setVec3Value name v sh = sh(name \<mapsto> UVec3 v)"

definition setVec4Value :: "string \<Rightarrow> vec4 \<Rightarrow> ShaderManager \<Rightarrow> ShaderManager" where
  "setVec4Value name v sh = sh(name \<mapsto> UVec4 v)"

definition setMat4Value :: "string \<Rightarrow> mat4 \<Rightarrow> ShaderManager \<Rightarrow> ShaderManager" where
  "setMat4Value name v sh = sh(name \<mapsto> UMat4 v)"

definition setSampler2DValue :: "string \<Rightarrow> int \<Rightarrow> ShaderManager \<Rightarrow> ShaderManager" where
  "setSampler2DValue name v sh = sh(name \<mapsto> USampler2D v)"

definition g_ModelName :: string where "g_ModelName = ''model''"
definition g_ColorValueName :: string where "g_ColorValueName = ''objectColor''"
definition g_TextureValueName :: string where "g_TextureValueName = ''objectTexture''"
definition g_UseTextureName :: string where "g_UseTextureName = ''bUseTexture''"
definition g_UseLightingName :: string where "g_UseLightingName = ''bUseLighting''"

subsection \<open>The scene manager\<close>

text \<open>
  The object's members, and with them the OpenGL context its methods act on. The array
  \<^verbatim>\<open>m_textureIDs\<close> is a list whose length is the declared size of the array, which never
  changes. A null \<^verbatim>\<open>m_pShaderManager\<close> is \<open>None\<close>.
\<close>

record SceneManager =
  m_pShaderManager :: "ShaderManager option"
  m_loadedTextures :: int
  m_textureIDs :: "TEXTURE_INFO list"
  m_objectMaterials :: "OBJECT_MATERIAL list"
  gl :: GLState

text \<open>
  Modelled from the spec: the declared size of \<^verbatim>\<open>m_textureIDs\<close> (the declaration is in
  \<^verbatim>\<open>SceneManager.h\<close>, which is not part of the file). The spec gives "a fixed-size array"
  with "a hard cap of 16", and the comments of the source count 16 slots.
\<close>

definition texture_capacity :: nat where
  "texture_capacity = 16"

text \<open>Reading \<^verbatim>\<open>m_textureIDs[index]\<close>.\<close>

definition textureIDs_at :: "SceneManager \<Rightarrow> int \<Rightarrow> error + TEXTURE_INFO" where
  "textureIDs_at s index =
     (if 0 \<le> index \<and> index < int (length (m_textureIDs s))
      then Inr (m_textureIDs s ! nat index) else Inl OutOfBounds)"

section \<open>The texture registry\<close>

text \<open>
  \<^verbatim>\<open>CreateGLTexture\<close>: decode the file; when that worked, generate and bind a texture,
  upload a 3- or 4-channel image (any other channel count returns \<open>false\<close> on the spot,
  \<open>uploaded\<close> being \<open>None\<close>), unbind, and store handle and tag at index
  \<^verbatim>\<open>m_loadedTextures\<close>, which is then incremented. The store is not guarded by any
  comparison with the size of the array.
\<close>

definition CreateGLTexture ::
  "filesystem \<Rightarrow> string \<Rightarrow> string \<Rightarrow> SceneManager \<Rightarrow> error + (bool \<times> SceneManager)" where
  "CreateGLTexture fs filename tg s =
     (case stbi_load fs filename of
        None \<Rightarrow> Inr (False, s)
      | Some img \<Rightarrow>
          (let (textureID, g1) = glGenTextures (gl s);
               g2 = glBindTexture textureID g1;
               uploaded =
                 (if colorChannels img = 3 then Some (glTexImage2D GL_RGB img g2)
                  else if colorChannels img = 4 then Some (glTexImage2D GL_RGBA img g2)
                  else None)
           in case uploaded of
                None \<Rightarrow> Inr (False, s\<lparr>gl := g2\<rparr>)
              | Some g3 \<Rightarrow>
                  (let g4 = glBindTexture 0 g3;
                       n = m_loadedTextures s
                   in if 0 \<le> n \<and> n < int (length (m_textureIDs s)) then
                        Inr (True,
                             s\<lparr>m_textureIDs :=
                                 (m_textureIDs s)[nat n := \<lparr>ID = textureID, tag = tg\<rparr>],
                               m_loadedTextures := n + 1,
                               gl := g4\<rparr>)
                      else Inl OutOfBounds)))"

text \<open>
  \<^verbatim>\<open>BindGLTextures\<close>: the loop \<^verbatim>\<open>for (i = 0; i < m_loadedTextures; i++)\<close>, from the
  current \<open>i\<close>.
\<close>

function BindGLTextures_for :: "int \<Rightarrow> SceneManager \<Rightarrow> error + SceneManager" where
  "BindGLTextures_for i s =
     (if i < m_loadedTextures s then
        (case textureIDs_at s i of
           Inl e \<Rightarrow> Inl e
         | Inr entry \<Rightarrow>
             BindGLTextures_for (i + 1)
               (s\<lparr>gl := glBindTexture (ID entry) (glActiveTexture i (gl s))\<rparr>))
      else Inr s)"
  by pat_completeness auto
termination
  by (relation "measure (\<lambda>(i, s). nat (m_loadedTextures s - i))") auto

definition BindGLTextures :: "SceneManager \<Rightarrow> error + SceneManager" where
  "BindGLTextures s = BindGLTextures_for 0 s"

text \<open>
  \<^verbatim>\<open>DestroyGLTextures\<close>: the loop calls \<^verbatim>\<open>glGenTextures(1, &m_textureIDs[i].ID)\<close>, which
  writes a newly generated name over the stored one.
\<close>

function DestroyGLTextures_for :: "int \<Rightarrow> SceneManager \<Rightarrow> error + SceneManager" where
  "DestroyGLTextures_for i s =
     (if i < m_loadedTextures s then
        (case textureIDs_at s i of
           Inl e \<Rightarrow> Inl e
         | Inr entry \<Rightarrow>
             (let (n, g) = glGenTextures (gl s)
              in DestroyGLTextures_for (i + 1)
                   (s\<lparr>m_textureIDs := (m_textureIDs s)[nat i := entry\<lparr>ID := n\<rparr>],
                      gl := g\<rparr>)))
      else Inr s)"
  by pat_completeness auto
termination
  by (relation "measure (\<lambda>(i, s). nat (m_loadedTextures s - i))")
     (auto split: prod.splits)

definition DestroyGLTextures :: "SceneManager \<Rightarrow> error + SceneManager" where
  "DestroyGLTextures s = DestroyGLTextures_for 0 s"

text \<open>
  \<^verbatim>\<open>FindTextureSlot\<close>: the loop
  \<^verbatim>\<open>while ((index < m_loadedTextures) && (bFound == false))\<close> over the locals
  (\<open>textureSlot\<close>, \<open>index\<close>, \<open>bFound\<close>), then \<^verbatim>\<open>return(textureSlot)\<close>, which starts at
  \<open>-1\<close>. (\<^verbatim>\<open>FindTextureID\<close>, the same loop returning the stored handle, has no caller in
  the file and is left out.)
\<close>

function FindTextureSlot_while ::
  "SceneManager \<Rightarrow> string \<Rightarrow> int \<times> int \<times> bool \<Rightarrow> error + int" where
  "FindTextureSlot_while s tg (textureSlot, index, bFound) =
     (if index < m_loadedTextures s \<and> bFound = False then
        (case textureIDs_at s index of
           Inl e \<Rightarrow> Inl e
         | Inr entry \<Rightarrow>
             if TEXTURE_INFO.tag entry = tg
             then FindTextureSlot_while s tg (index, index, True)
             else FindTextureSlot_while s tg (textureSlot, index + 1, bFound))
      else Inr textureSlot)"
  by pat_completeness auto
termination
  by (relation "measure (\<lambda>(s, tg, (r, index, bFound)).
        2 * nat (m_loadedTextures s - index) + (if bFound then 0 else 1))") auto

definition FindTextureSlot :: "string \<Rightarrow> SceneManager \<Rightarrow> error + int" where
  "FindTextureSlot tg s = FindTextureSlot_while s tg (-1, 0, False)"

text \<open>A run of \<^verbatim>\<open>CreateGLTexture\<close> calls, one per (file, tag), with each call's return value.\<close>

fun CreateGLTextures ::
  "filesystem \<Rightarrow> (string \<times> string) list \<Rightarrow> SceneManager \<Rightarrow> error + (bool list \<times> SceneManager)" where
  "CreateGLTextures fs [] s = Inr ([], s)"
| "CreateGLTextures fs ((filename, tg) # rest) s =
     (case CreateGLTexture fs filename tg s of
        Inl e \<Rightarrow> Inl e
      | Inr (bReturn, s1) \<Rightarrow>
          (case CreateGLTextures fs rest s1 of
             Inl e \<Rightarrow> Inl e
           | Inr (bs, s2) \<Rightarrow> Inr (bReturn # bs, s2)))"

text \<open>
  \<^verbatim>\<open>LoadSceneTextures\<close>: ten registrations, whose return values are assigned to
  \<^verbatim>\<open>bReturn\<close> and never read, then \<^verbatim>\<open>BindGLTextures\<close>.
\<close>

definition LoadSceneTextures :: "filesystem \<Rightarrow> SceneManager \<Rightarrow> error + SceneManager" where
  "LoadSceneTextures fs s =
     (case CreateGLTextures fs
             [(''textures/glasscup.jpg'', ''glasscup''),
              (''textures/wood.jpg'', ''wood''),
              (''textures/vinous-liquid-with-foam-blobs.jpg'', ''coffee''),
              (''textures/lamp.jpg'', ''lamp''),
              (''textures/gold.jpg'', ''gold''),
              (''textures/keyboard.png'', ''keyboard''),
              (''textures/aluminum.png'', ''aluminum''),
              (''textures/login.jpg'', ''login''),
              (''textures/leather.jpg'', ''leather''),
              (''textures/pen.jpg'', ''pen'')] s of
        Inl e \<Rightarrow> Inl e
      | Inr (bs, s1) \<Rightarrow> BindGLTextures s1)"

section \<open>The material registry\<close>

text \<open>
  \<^verbatim>\<open>FindMaterial\<close>: \<open>false\<close> on an empty vector; otherwise the loop
  \<^verbatim>\<open>while ((index < m_objectMaterials.size()) && (bFound == false))\<close> over the locals
  (\<open>index\<close>, \<open>bFound\<close>) and the reference parameter \<open>material\<close>, then \<^verbatim>\<open>return(true)\<close>.
  A match copies the three shading fields into \<open>material\<close> and leaves its tag alone.
  The comparison of the \<^verbatim>\<open>int\<close> index with the unsigned size converts the index to
  unsigned, so a negative index would compare as not smaller; the index starts at 0 and
  only grows.
\<close>

function FindMaterial_while ::
  "OBJECT_MATERIAL list \<Rightarrow> string \<Rightarrow> int \<times> bool \<times> OBJECT_MATERIAL \<Rightarrow>
     int \<times> bool \<times> OBJECT_MATERIAL" where
  "FindMaterial_while ms tg (index, bFound, material) =
     (if 0 \<le> index \<and> index < int (length ms) \<and> bFound = False then
        (if OBJECT_MATERIAL.tag (ms ! nat index) = tg
         then FindMaterial_while ms tg
                (index, True,
                 material\<lparr>diffuseColor := diffuseColor (ms ! nat index),
                          specularColor := specularColor (ms ! nat index),
                          shininess := shininess (ms ! nat index)\<rparr>)
         else FindMaterial_while ms tg (index + 1, bFound, material))
      else (index, bFound, material))"
  by pat_completeness auto
termination
  by (relation "measure (\<lambda>(ms, tg, (index, bFound, material)).
        2 * nat (int (length ms) - index) + (if bFound then 0 else 1))") auto

definition FindMaterial ::
  "string \<Rightarrow> OBJECT_MATERIAL \<Rightarrow> SceneManager \<Rightarrow> bool \<times> OBJECT_MATERIAL" where
  "FindMaterial tg material s =
     (if length (m_objectMaterials s) = 0 then (False, material)
      else (let (index, bFound, material') =
                  FindMaterial_while (m_objectMaterials s) tg (0, False, material)
            in (True, material')))"

text \<open>\<^verbatim>\<open>m_objectMaterials.push_back(m)\<close>.\<close>

definition push_back :: "OBJECT_MATERIAL \<Rightarrow> SceneManager \<Rightarrow> SceneManager" where
  "push_back m s = s\<lparr>m_objectMaterials := m_objectMaterials s @ [m]\<rparr>"

definition DefineObjectMaterials :: "SceneManager \<Rightarrow> SceneManager" where
  "DefineObjectMaterials s =
     (let woodMaterial = \<lparr>diffuseColor = (0.6, 0.5, 0.4), specularColor = (0.5, 0.5, 0.5),
                           shininess = 64.0, tag = ''wood''\<rparr>;
          s1 = push_back woodMaterial s;
          glassMaterial = \<lparr>diffuseColor = (0.7, 0.7, 0.8), specularColor = (1.0, 1.0, 1.0),
                            shininess = 128.0, tag = ''glass''\<rparr>;
          s2 = push_back glassMaterial s1;
          goldMaterial = \<lparr>diffuseColor = (0.4, 0.4, 0.4), specularColor = (0.7, 0.7, 0.6),
                           shininess = 52.0, tag = ''metal''\<rparr>;
          s3 = push_back goldMaterial s2;
          leatherMaterial = \<lparr>diffuseColor = (0.5, 0.4, 0.3), specularColor = (0.01, 0.01, 0.01),
                              shininess = 0.001, tag = ''leather''\<rparr>;
          s4 = push_back leatherMaterial s3;
          canvasMaterial = \<lparr>diffuseColor = (0.7, 0.6, 0.5), specularColor = (0.02, 0.02, 0.02),
                             shininess = 0.001, tag = ''canvas''\<rparr>
      in push_back canvasMaterial s4)"

section \<open>The transform pipeline\<close>

subsection \<open>The GLM functions that the source calls\<close>

text \<open>
  Modelled from the spec: the GLM library (not part of the file), whose
  \<^verbatim>\<open>glm::scale\<close>, \<^verbatim>\<open>glm::rotate\<close>, \<^verbatim>\<open>glm::translate\<close> and matrix product the spec
  names as scale, per-axis rotation, translation and composition of 4x4 transforms. The
  definitions follow GLM's own: column-major matrices, the one-argument forms of
  \<^verbatim>\<open>glm/gtx/transform.hpp\<close> applying the general form to the identity matrix, and the
  rotation about a normalised axis.
\<close>

fun vec4_scale :: "vec4 \<Rightarrow> real \<Rightarrow> vec4" where
  "vec4_scale (Vec4 x y z w) k = Vec4 (x * k) (y * k) (z * k) (w * k)"

fun vec4_add :: "vec4 \<Rightarrow> vec4 \<Rightarrow> vec4" where
  "vec4_add (Vec4 x y z w) (Vec4 x' y' z' w') = Vec4 (x + x') (y + y') (z + z') (w + w')"

definition mat4_identity :: mat4 where
  "mat4_identity = Mat4 (Vec4 1 0 0 0) (Vec4 0 1 0 0) (Vec4 0 0 1 0) (Vec4 0 0 0 1)"

text \<open>\<^verbatim>\<open>mat4 * vec4\<close>: the columns weighted by the components of the vector.\<close>

fun mat4_mul_vec4 :: "mat4 \<Rightarrow> vec4 \<Rightarrow> vec4" where
  "mat4_mul_vec4 (Mat4 c0 c1 c2 c3) (Vec4 x y z w) =
     vec4_add (vec4_add (vec4_scale c0 x) (vec4_scale c1 y))
              (vec4_add (vec4_scale c2 z) (vec4_scale c3 w))"

text \<open>\<^verbatim>\<open>mat4 * mat4\<close>: column \<open>j\<close> of the product is the left factor applied to column \<open>j\<close>
  of the right one, summed from the left.\<close>

fun mat4_mul_col :: "mat4 \<Rightarrow> vec4 \<Rightarrow> vec4" where
  "mat4_mul_col (Mat4 a0 a1 a2 a3) (Vec4 x y z w) =
     vec4_add (vec4_add (vec4_add (vec4_scale a0 x) (vec4_scale a1 y)) (vec4_scale a2 z))
              (vec4_scale a3 w)"

fun mat4_mul :: "mat4 \<Rightarrow> mat4 \<Rightarrow> mat4" where
  "mat4_mul m1 (Mat4 b0 b1 b2 b3) =
     Mat4 (mat4_mul_col m1 b0) (mat4_mul_col m1 b1) (mat4_mul_col m1 b2) (mat4_mul_col m1 b3)"

definition glm_radians :: "real \<Rightarrow> real" where
  "glm_radians degrees = degrees * (pi / 180)"

definition glm_normalize :: "vec3 \<Rightarrow> vec3" where
  "glm_normalize v =
     (case v of (x, y, z) \<Rightarrow>
        (let k = 1 / sqrt (x * x + y * y + z * z) in (x * k, y * k, z * k)))"

fun glm_scale_m :: "mat4 \<Rightarrow> vec3 \<Rightarrow> mat4" where
  "glm_scale_m (Mat4 m0 m1 m2 m3) (x, y, z) =
     Mat4 (vec4_scale m0 x) (vec4_scale m1 y) (vec4_scale m2 z) m3"

fun glm_translate_m :: "mat4 \<Rightarrow> vec3 \<Rightarrow> mat4" where
  "glm_translate_m (Mat4 m0 m1 m2 m3) (x, y, z) =
     Mat4 m0 m1 m2
       (vec4_add (vec4_add (vec4_add (vec4_scale m0 x) (vec4_scale m1 y)) (vec4_scale m2 z)) m3)"

fun glm_rotate_m :: "mat4 \<Rightarrow> real \<Rightarrow> vec3 \<Rightarrow> mat4" where
  "glm_rotate_m (Mat4 m0 m1 m2 m3) angle v =
     (let c = cos angle; s = sin angle in
      case glm_normalize v of (ax, ay, az) \<Rightarrow>
        (let tx = (1 - c) * ax; ty = (1 - c) * ay; tz = (1 - c) * az;
             r00 = c + tx * ax; r01 = tx * ay + s * az; r02 = tx * az - s * ay;
             r10 = ty * ax - s * az; r11 = c + ty * ay; r12 = ty * az + s * ax;
             r20 = tz * ax + s * ay; r21 = tz * ay - s * ax; r22 = c + tz * az
         in Mat4 (vec4_add (vec4_add (vec4_scale m0 r00) (vec4_scale m1 r01)) (vec4_scale m2 r02))
                 (vec4_add (vec4_add (vec4_scale m0 r10) (vec4_scale m1 r11)) (vec4_scale m2 r12))
                 (vec4_add (vec4_add (vec4_scale m0 r20) (vec4_scale m1 r21)) (vec4_scale m2 r22))
                 m3))"

definition glm_scale :: "vec3 \<Rightarrow> mat4" where
  "glm_scale v = glm_scale_m mat4_identity v"

definition glm_rotate :: "real \<Rightarrow> vec3 \<Rightarrow> mat4" where
  "glm_rotate angle v = glm_rotate_m mat4_identity angle v"

definition glm_translate :: "vec3 \<Rightarrow> mat4" where
  "glm_translate v = glm_translate_m mat4_identity v"

subsection \<open>SetTransformations\<close>

text \<open>The local \<^verbatim>\<open>modelView\<close>; the product of the source associates to the left.\<close>

definition SetTransformations_modelView :: "vec3 \<Rightarrow> real \<Rightarrow> real \<Rightarrow> real \<Rightarrow> vec3 \<Rightarrow> mat4" where
  "SetTransformations_modelView scaleXYZ XrotationDegrees YrotationDegrees ZrotationDegrees
       positionXYZ =
     (let scale = glm_scale scaleXYZ;
          rotationX = glm_rotate (glm_radians XrotationDegrees) (1, 0, 0);
          rotationY = glm_rotate (glm_radians YrotationDegrees) (0, 1, 0);
          rotationZ = glm_rotate (glm_radians ZrotationDegrees) (0, 0, 1);
          translation = glm_translate positionXYZ
      in mat4_mul (mat4_mul (mat4_mul (mat4_mul translation rotationZ) rotationY) rotationX)
           scale)"

definition SetTransformations ::
  "vec3 \<Rightarrow> real \<Rightarrow> real \<Rightarrow> real \<Rightarrow> vec3 \<Rightarrow> SceneManager \<Rightarrow> SceneManager" where
  "SetTransformations scaleXYZ XrotationDegrees YrotationDegrees ZrotationDegrees positionXYZ s =
     (let modelView = SetTransformations_modelView scaleXYZ XrotationDegrees YrotationDegrees
                        ZrotationDegrees positionXYZ
      in case m_pShaderManager s of
           None \<Rightarrow> s
         | Some sh \<Rightarrow> s\<lparr>m_pShaderManager := Some (setMat4Value g_ModelName modelView sh)\<rparr>)"

section \<open>Selecting colour, texture and material\<close>

text \<open>The \<^verbatim>\<open>bool\<close> arguments of \<^verbatim>\<open>setIntValue\<close> convert to the integers 0 and 1.\<close>

definition SetShaderColor :: "real \<Rightarrow> real \<Rightarrow> real \<Rightarrow> real \<Rightarrow> SceneManager \<Rightarrow> SceneManager" where
  "SetShaderColor redColorValue greenColorValue blueColorValue alphaValue s =
     (let currentColor = Vec4 redColorValue greenColorValue blueColorValue alphaValue
      in case m_pShaderManager s of
           None \<Rightarrow> s
         | Some sh \<Rightarrow>
             s\<lparr>m_pShaderManager :=
                 Some (setVec4Value g_ColorValueName currentColor
                         (setIntValue g_UseTextureName (of_bool False) sh))\<rparr>)"

definition SetShaderTexture :: "string \<Rightarrow> SceneManager \<Rightarrow> error + SceneManager" where
  "SetShaderTexture textureTag s =
     (case m_pShaderManager s of
        None \<Rightarrow> Inr s
      | Some sh \<Rightarrow>
          (let sh1 = setIntValue g_UseTextureName (of_bool True) sh
           in case FindTextureSlot textureTag s of
                Inl e \<Rightarrow> Inl e
              | Inr textureID \<Rightarrow>
                  Inr (s\<lparr>m_pShaderManager :=
                          Some (setSampler2DValue g_TextureValueName textureID sh1)\<rparr>)))"

definition SetTextureUVScale :: "real \<Rightarrow> real \<Rightarrow> SceneManager \<Rightarrow> SceneManager" where
  "SetTextureUVScale u v s =
     (case m_pShaderManager s of
        None \<Rightarrow> s
      | Some sh \<Rightarrow> s\<lparr>m_pShaderManager := Some (setVec2Value ''UVscale'' (u, v) sh)\<rparr>)"

definition SetShaderMaterial :: "string \<Rightarrow> SceneManager \<Rightarrow> error + SceneManager" where
  "SetShaderMaterial textureTag s =
     (case m_pShaderManager s of
        None \<Rightarrow> Inr s
      | Some sh \<Rightarrow>
          (let sh1 = setIntValue g_UseTextureName (of_bool True) sh
           in case FindTextureSlot textureTag s of
                Inl e \<Rightarrow> Inl e
              | Inr textureID \<Rightarrow>
                  Inr (s\<lparr>m_pShaderManager :=
                          Some (setSampler2DValue g_TextureValueName textureID sh1)\<rparr>)))"

text \<open>\<^verbatim>\<open>SetupSceneLights\<close> calls through \<^verbatim>\<open>m_pShaderManager\<close> without a null test.\<close>

definition SetupSceneLights :: "SceneManager \<Rightarrow> error + SceneManager" where
  "SetupSceneLights s =
     (case m_pShaderManager s of
        None \<Rightarrow> Inl NullPointer
      | Some sh \<Rightarrow>
          Inr (s\<lparr>m_pShaderManager := Some
             (setBoolValue ''pointLights[0].bActive'' True
             (setVec3Value ''pointLights[0].specular'' (0.9, 0.8, 0.7)
             (setVec3Value ''pointLights[0].diffuse'' (1.0, 0.8, 0.7)
             (setVec3Value ''pointLights[0].ambient'' (0.2, 0.2, 0.2)
             (setVec3Value ''pointLights[0].position'' (2.0, 3.0, 2.0)
             (setBoolValue ''directionalLight.bActive'' True
             (setVec3Value ''directionalLight.specular'' (0.3, 0.3, 0.3)
             (setVec3Value ''directionalLight.diffuse'' (0.6, 0.6, 0.6)
             (setVec3Value ''directionalLight.ambient'' (0.4, 0.4, 0.4)
             (setVec3Value ''directionalLight.direction'' (-0.3, -1.0, -0.2)
             (setBoolValue g_UseLightingName True sh)))))))))))\<rparr>))"

subsection \<open>Every method that changes state\<close>

text \<open>
  One constructor per method of the file that changes the scene manager, the OpenGL
  context or the shader state. \<^verbatim>\<open>PrepareScene\<close> and \<^verbatim>\<open>RenderScene\<close> are fixed sequences
  of these calls, interleaved with calls of the mesh provider, which touch none of the
  three.
\<close>

datatype operation =
    M_CreateGLTexture string string
  | M_BindGLTextures
  | M_DestroyGLTextures
  | M_SetTransformations vec3 real real real vec3
  | M_SetShaderColor real real real real
  | M_SetShaderTexture string
  | M_SetTextureUVScale real real
  | M_SetShaderMaterial string
  | M_LoadSceneTextures
  | M_DefineObjectMaterials
  | M_SetupSceneLights

fun call :: "filesystem \<Rightarrow> operation \<Rightarrow> SceneManager \<Rightarrow> error + SceneManager" where
  "call fs (M_CreateGLTexture filename tg) s = map_sum id snd (CreateGLTexture fs filename tg s)"
| "call fs M_BindGLTextures s = BindGLTextures s"
| "call fs M_DestroyGLTextures s = DestroyGLTextures s"
| "call fs (M_SetTransformations sc rx ry rz p) s = Inr (SetTransformations sc rx ry rz p s)"
| "call fs (M_SetShaderColor r g b a) s = Inr (SetShaderColor r g b a s)"
| "call fs (M_SetShaderTexture tg) s = SetShaderTexture tg s"
| "call fs (M_SetTextureUVScale u v) s = Inr (SetTextureUVScale u v s)"
| "call fs (M_SetShaderMaterial tg) s = SetShaderMaterial tg s"
| "call fs M_LoadSceneTextures s = LoadSceneTextures fs s"
| "call fs M_DefineObjectMaterials s = Inr (DefineObjectMaterials s)"
| "call fs M_SetupSceneLights s = SetupSceneLights s"

fun calls :: "filesystem \<Rightarrow> operation list \<Rightarrow> SceneManager \<Rightarrow> error + SceneManager" where
  "calls fs [] s = Inr s"
| "calls fs (m # ms) s = (case call fs m s of Inl e \<Rightarrow> Inl e | Inr s1 \<Rightarrow> calls fs ms s1)"

section \<open>A concrete scene\<close>

text \<open>
  A file system and a freshly constructed scene manager on which the general results are
  run: three decodable images of the scene (two JPEG files with three channels, a PNG
  file with four), a one-channel greyscale image, and nothing else; an empty registry of
  \<^const>\<open>texture_capacity\<close> slots, no materials, a shader without any uniform stored and an
  OpenGL context of sixteen texture units in which no texture name has been generated.
\<close>

definition example_files :: filesystem where
  "example_files filename =
     (if filename = ''textures/wood.jpg''
        then Some \<lparr>width = 512, height = 512, colorChannels = 3\<rparr>
      else if filename = ''textures/glasscup.jpg''
        then Some \<lparr>width = 256, height = 256, colorChannels = 3\<rparr>
      else if filename = ''textures/keyboard.png''
        then Some \<lparr>width = 640, height = 480, colorChannels = 4\<rparr>
      else if filename = ''textures/gray.png''
        then Some \<lparr>width = 64, height = 64, colorChannels = 1\<rparr>
      else None)"

definition example_scene :: SceneManager where
  "example_scene =
     \<lparr>m_pShaderManager = Some (\<lambda>name. None),
      m_loadedTextures = 0,
      m_textureIDs = replicate texture_capacity \<lparr>ID = 0, tag = ''''\<rparr>,
      m_objectMaterials = [],
      gl = \<lparr>gl_names = [], gl_active = 0, gl_units = (\<lambda>u. 0), gl_max_units = 16,
             gl_images = (\<lambda>t. None)\<rparr>\<rparr>"

section \<open>Observations\<close>

text \<open>The value stored under a uniform's name in the shader that the scene manager points
  to; \<open>None\<close> when there is no shader or nothing was stored under the name.\<close>

definition uniform_value :: "string \<Rightarrow> SceneManager \<Rightarrow> uniform option" where
  "uniform_value name s =
     (case m_pShaderManager s of None \<Rightarrow> None | Some sh \<Rightarrow> sh name)"

text \<open>Two scene managers that differ at most in their material registry.\<close>

definition same_but_materials :: "SceneManager \<Rightarrow> SceneManager \<Rightarrow> bool" where
  "same_but_materials a b \<longleftrightarrow> b = a\<lparr>m_objectMaterials := m_objectMaterials b\<rparr>"

section \<open>The transform of the spec, on points\<close>

text \<open>
  The spec's wording of the transform pipeline, kept apart from the embedding of the
  source: scale, then the rotations about X, Y and Z by angles in degrees, then the
  translation, each as a map on points of space, and their composition
  "translation \<open>\<circ>\<close> rotateZ \<open>\<circ>\<close> rotateY \<open>\<circ>\<close> rotateX \<open>\<circ>\<close> scale".
\<close>

definition spec_scale :: "vec3 \<Rightarrow> vec3 \<Rightarrow> vec3" where
  "spec_scale k v = (case (k, v) of ((kx, ky, kz), (x, y, z)) \<Rightarrow> (kx * x, ky * y, kz * z))"

definition spec_rotateX :: "real \<Rightarrow> vec3 \<Rightarrow> vec3" where
  "spec_rotateX degrees v =
     (let t = degrees * pi / 180 in
      case v of (x, y, z) \<Rightarrow> (x, cos t * y - sin t * z, sin t * y + cos t * z))"

definition spec_rotateY :: "real \<Rightarrow> vec3 \<Rightarrow> vec3" where
  "spec_rotateY degrees v =
     (let t = degrees * pi / 180 in
      case v of (x, y, z) \<Rightarrow> (cos t * x + sin t * z, y, cos t * z - sin t * x))"

definition spec_rotateZ :: "real \<Rightarrow> vec3 \<Rightarrow> vec3" where
  "spec_rotateZ degrees v =
     (let t = degrees * pi / 180 in
      case v of (x, y, z) \<Rightarrow> (cos t * x - sin t * y, sin t * x + cos t * y, z))"

definition spec_translation :: "vec3 \<Rightarrow> vec3 \<Rightarrow> vec3" where
  "spec_translation p v = (case (p, v) of ((px, py, pz), (x, y, z)) \<Rightarrow> (x + px, y + py, z + pz))"

definition spec_computeModelMatrix :: "vec3 \<Rightarrow> real \<Rightarrow> real \<Rightarrow> real \<Rightarrow> vec3 \<Rightarrow> vec3 \<Rightarrow> vec3" where
  "spec_computeModelMatrix scaleXYZ rx ry rz positionXYZ =
     spec_translation positionXYZ \<circ> spec_rotateZ rz \<circ> spec_rotateY ry \<circ> spec_rotateX rx
       \<circ> spec_scale scaleXYZ"

text \<open>A point of space as the homogeneous vector a matrix is applied to, and back.\<close>

definition point :: "vec3 \<Rightarrow> vec4" where
  "point v = (case v of (x, y, z) \<Rightarrow> Vec4 x y z 1)"

section \<open>Properties of the texture registry\<close>

text \<open>
  The loops are unfolded one iteration at a time in the proofs below, so their defining
  equations are taken out of the simplifier's rule set.
\<close>

declare FindTextureSlot_while.simps [simp del]
declare BindGLTextures_for.simps [simp del]
declare DestroyGLTextures_for.simps [simp del]
declare FindMaterial_while.simps [simp del]

subsection \<open>Fresh texture names\<close>

lemma fresh_name_bound: "x \<in> set names \<Longrightarrow> x \<le> foldr max names (0::nat)"
  by (induction names) auto

lemma fresh_name_notin: "fresh_name names \<notin> set names"
proof
  assume "fresh_name names \<in> set names"
  then have "fresh_name names \<le> foldr max names 0" by (rule fresh_name_bound)
  then show False by (simp add: fresh_name_def)
qed

subsection \<open>The slot lookup\<close>

text \<open>
  On a registry whose counter does not exceed the size of the array, the loop returns the
  first index at or after its start whose tag matches, and the initial \<open>-1\<close> when no
  loaded entry matches.
\<close>
lemma FindTextureSlot_while_found: "FindTextureSlot_while s tg (r, i, True) = Inr r"
  by (simp add: FindTextureSlot_while.simps)

lemma FindTextureSlot_while_miss:
  assumes "0 \<le> i" and "m_loadedTextures s \<le> int (length (m_textureIDs s))"
    and "\<forall>j. i \<le> j \<and> j < m_loadedTextures s \<longrightarrow> TEXTURE_INFO.tag (m_textureIDs s ! nat j) \<noteq> tg"
  shows "FindTextureSlot_while s tg (r, i, False) = Inr r"
  using assms
proof (induction "nat (m_loadedTextures s - i)" arbitrary: i)
  case 0
  then show ?case by (simp add: FindTextureSlot_while.simps)
next
  case (Suc k)
  then have lt: "i < m_loadedTextures s" by linarith
  have rd: "textureIDs_at s i = Inr (m_textureIDs s ! nat i)"
    using Suc.prems lt by (simp add: textureIDs_at_def)
  have ne: "TEXTURE_INFO.tag (m_textureIDs s ! nat i) \<noteq> tg"
    using Suc.prems lt by simp
  have "FindTextureSlot_while s tg (r, i + 1, False) = Inr r"
    using Suc.hyps Suc.prems by (intro Suc.hyps(1)) auto
  then show ?case
    using lt rd ne by (subst FindTextureSlot_while.simps) simp
qed

lemma FindTextureSlot_while_hit:
  assumes "0 \<le> i" and "i \<le> k" and "k < m_loadedTextures s"
    and "m_loadedTextures s \<le> int (length (m_textureIDs s))"
    and "TEXTURE_INFO.tag (m_textureIDs s ! nat k) = tg"
    and "\<forall>j. i \<le> j \<and> j < k \<longrightarrow> TEXTURE_INFO.tag (m_textureIDs s ! nat j) \<noteq> tg"
  shows "FindTextureSlot_while s tg (r, i, False) = Inr k"
  using assms
proof (induction "nat (k - i)" arbitrary: i r)
  case 0
  then have ik: "i = k" by simp
  have rd: "textureIDs_at s k = Inr (m_textureIDs s ! nat k)"
    using "0.prems" ik by (simp add: textureIDs_at_def)
  show ?case
    using "0.prems" rd unfolding ik
    by (subst FindTextureSlot_while.simps) (simp add: FindTextureSlot_while_found)
next
  case (Suc n)
  then have lt: "i < k" by linarith
  have rd: "textureIDs_at s i = Inr (m_textureIDs s ! nat i)"
    using Suc.prems lt by (simp add: textureIDs_at_def)
  have ne: "TEXTURE_INFO.tag (m_textureIDs s ! nat i) \<noteq> tg"
    using Suc.prems lt by simp
  have "FindTextureSlot_while s tg (r, i + 1, False) = Inr k"
    using Suc.hyps Suc.prems lt by (intro Suc.hyps(1)) auto
  then show ?case
    using lt rd ne Suc.prems by (subst FindTextureSlot_while.simps) simp
qed

lemma FindTextureSlot_miss:
  assumes "m_loadedTextures s \<le> int (length (m_textureIDs s))"
    and "\<forall>j. 0 \<le> j \<and> j < m_loadedTextures s \<longrightarrow> TEXTURE_INFO.tag (m_textureIDs s ! nat j) \<noteq> tg"
  shows "FindTextureSlot tg s = Inr (- 1)"
  unfolding FindTextureSlot_def using assms by (intro FindTextureSlot_while_miss) auto

lemma FindTextureSlot_total:
  assumes "m_loadedTextures s \<le> int (length (m_textureIDs s))"
  shows "\<exists>k. FindTextureSlot tg s = Inr k"
proof (cases "\<exists>j. 0 \<le> j \<and> j < m_loadedTextures s \<and> TEXTURE_INFO.tag (m_textureIDs s ! nat j) = tg")
  case False
  then show ?thesis using FindTextureSlot_miss [OF assms, of tg] by auto
next
  case True
  then have ex: "\<exists>n. 0 \<le> int n \<and> int n < m_loadedTextures s \<and> TEXTURE_INFO.tag (m_textureIDs s ! nat (int n)) = tg"
    by (metis nat_0_le)
  define n where "n = (LEAST n. 0 \<le> int n \<and> int n < m_loadedTextures s \<and> TEXTURE_INFO.tag (m_textureIDs s ! nat (int n)) = tg)"
  have P: "int n < m_loadedTextures s \<and> TEXTURE_INFO.tag (m_textureIDs s ! nat (int n)) = tg"
    unfolding n_def using LeastI_ex [OF ex] by simp
  have least: "\<And>m. m < n \<Longrightarrow> \<not> (int m < m_loadedTextures s \<and> TEXTURE_INFO.tag (m_textureIDs s ! nat (int m)) = tg)"
    unfolding n_def using not_less_Least by fastforce
  have "\<forall>j. 0 \<le> j \<and> j < int n \<longrightarrow> TEXTURE_INFO.tag (m_textureIDs s ! nat j) \<noteq> tg"
  proof (intro allI impI)
    fix j assume j: "0 \<le> j \<and> j < int n"
    then have "nat j < n" by linarith
    from least [OF this] j P show "TEXTURE_INFO.tag (m_textureIDs s ! nat j) \<noteq> tg" by auto
  qed
  then have "FindTextureSlot_while s tg (- 1, 0, False) = Inr (int n)"
    using P assms by (intro FindTextureSlot_while_hit) auto
  then show ?thesis by (auto simp: FindTextureSlot_def)
qed

subsection \<open>Registration\<close>

lemma CreateGLTexture_True:
  assumes "CreateGLTexture fs filename tg s = Inr (True, s')"
  shows "0 \<le> m_loadedTextures s \<and> m_loadedTextures s < int (length (m_textureIDs s))
       \<and> m_loadedTextures s' = m_loadedTextures s + 1
       \<and> m_textureIDs s' = (m_textureIDs s)[nat (m_loadedTextures s) :=
             \<lparr>ID = fresh_name (gl_names (gl s)), tag = tg\<rparr>]"
  using assms
  by (auto simp: CreateGLTexture_def glGenTextures_def Let_def
           split: option.splits if_splits)

lemma CreateGLTextures_registry:
  assumes "CreateGLTextures fs regs s = Inr (bs, s')" and "\<forall>b\<in>set bs. b"
    and "0 \<le> m_loadedTextures s" and "m_loadedTextures s \<le> int (length (m_textureIDs s))"
  shows "m_loadedTextures s' = m_loadedTextures s + int (length regs)
       \<and> m_loadedTextures s' \<le> int (length (m_textureIDs s'))
       \<and> length (m_textureIDs s') = length (m_textureIDs s)
       \<and> (\<forall>j < length regs.
             TEXTURE_INFO.tag (m_textureIDs s' ! (nat (m_loadedTextures s) + j)) = snd (regs ! j))
       \<and> (\<forall>j < nat (m_loadedTextures s). m_textureIDs s' ! j = m_textureIDs s ! j)"
  using assms
proof (induction regs arbitrary: s bs)
  case Nil
  then show ?case by simp
next
  case (Cons r regs)
  obtain filename tg where r: "r = (filename, tg)" by (cases r)
  from Cons.prems(1) obtain b s1 bs1 where
    c1: "CreateGLTexture fs filename tg s = Inr (b, s1)" and
    c2: "CreateGLTextures fs regs s1 = Inr (bs1, s')" and bs: "bs = b # bs1"
    unfolding r by (auto split: sum.splits prod.splits)
  from Cons.prems(2) bs have b: "b" and all: "\<forall>b\<in>set bs1. b" by auto
  note t = CreateGLTexture_True [OF c1 [unfolded b [THEN eqTrueI]]]
  have n1: "0 \<le> m_loadedTextures s1" using t by simp
  have len: "length (m_textureIDs s1) = length (m_textureIDs s)" using t by simp
  have n2: "m_loadedTextures s1 \<le> int (length (m_textureIDs s1))" using t len by simp
  note ih = Cons.IH [OF c2 all n1 n2]
  have nat1: "nat (m_loadedTextures s1) = Suc (nat (m_loadedTextures s))"
    using t by (simp add: nat_add_distrib)
  have old: "\<forall>j < nat (m_loadedTextures s). m_textureIDs s' ! j = m_textureIDs s ! j"
    using ih t nat1 by simp
  have here: "m_textureIDs s' ! nat (m_loadedTextures s) = \<lparr>ID = fresh_name (gl_names (gl s)), tag = tg\<rparr>"
  proof -
    have "m_textureIDs s' ! nat (m_loadedTextures s) = m_textureIDs s1 ! nat (m_loadedTextures s)"
      using ih nat1 by simp
    also have "\<dots> = \<lparr>ID = fresh_name (gl_names (gl s)), tag = tg\<rparr>"
    proof -
      have "nat (m_loadedTextures s) < length (m_textureIDs s)" using t by linarith
      then show ?thesis using t by simp
    qed
    finally show ?thesis .
  qed
  have tags: "\<forall>j < length (r # regs).
      TEXTURE_INFO.tag (m_textureIDs s' ! (nat (m_loadedTextures s) + j)) = snd ((r # regs) ! j)"
  proof (intro allI impI)
    fix j assume j: "j < length (r # regs)"
    show "TEXTURE_INFO.tag (m_textureIDs s' ! (nat (m_loadedTextures s) + j)) = snd ((r # regs) ! j)"
    proof (cases j)
      case 0
      then show ?thesis using here r by simp
    next
      case (Suc j')
      then have "j' < length regs" using j by simp
      then have "TEXTURE_INFO.tag (m_textureIDs s' ! (nat (m_loadedTextures s1) + j')) = snd (regs ! j')"
        using ih by blast
      then show ?thesis using Suc nat1 by simp
    qed
  qed
  show ?case using ih t len old tags by simp
qed

text \<open>
  Claim C5. Start from a registry with no texture loaded and run any sequence of
  registrations that all return \<open>true\<close>, with pairwise distinct tags. Then
  \<^const>\<open>FindTextureSlot\<close> of the tag registered at position \<open>i\<close> of the sequence (counted
  from 0) returns exactly \<open>i\<close>: a non-negative index, different for different tags. The
  index is stable: after any further successful registrations, whatever their tags, the
  same lookup still returns \<open>i\<close>.
\<close>
theorem registered_slot_is_insertion_order:
  assumes "m_loadedTextures s0 = 0"
    and "CreateGLTextures fs regs s0 = Inr (bs, s)" and "\<forall>b\<in>set bs. b"
    and "distinct (map snd regs)" and "i < length regs"
  shows "FindTextureSlot (snd (regs ! i)) s = Inr (int i)
       \<and> (\<forall>more bs' s'. CreateGLTextures fs more s = Inr (bs', s') \<and> (\<forall>b\<in>set bs'. b)
              \<longrightarrow> FindTextureSlot (snd (regs ! i)) s' = Inr (int i))"
proof -
  have z: "0 \<le> m_loadedTextures s0" "m_loadedTextures s0 \<le> int (length (m_textureIDs s0))"
    using assms(1) by simp_all
  note r = CreateGLTextures_registry [OF assms(2) assms(3) z]
  have n: "m_loadedTextures s = int (length regs)" using r assms(1) by simp
  have tags: "\<And>j. j < length regs \<Longrightarrow> TEXTURE_INFO.tag (m_textureIDs s ! j) = snd (regs ! j)"
    using r assms(1) by simp
  have first: "\<forall>j. 0 \<le> j \<and> j < int i \<longrightarrow> TEXTURE_INFO.tag (m_textureIDs s ! nat j) \<noteq> snd (regs ! i)"
  proof (intro allI impI)
    fix j assume j: "0 \<le> j \<and> j < int i"
    then have lt: "nat j < i" by linarith
    then have "nat j < length regs" using assms(5) by simp
    then have "TEXTURE_INFO.tag (m_textureIDs s ! nat j) = snd (regs ! nat j)" by (rule tags)
    moreover have "snd (regs ! nat j) \<noteq> snd (regs ! i)"
      using assms(4) assms(5) lt by (simp add: distinct_conv_nth)
    ultimately show "TEXTURE_INFO.tag (m_textureIDs s ! nat j) \<noteq> snd (regs ! i)" by simp
  qed
  have here: "FindTextureSlot (snd (regs ! i)) s = Inr (int i)"
    unfolding FindTextureSlot_def
    using n r assms(5) tags [OF assms(5)] first
    by (intro FindTextureSlot_while_hit) auto
  have later: "FindTextureSlot (snd (regs ! i)) s' = Inr (int i)"
    if c: "CreateGLTextures fs more s = Inr (bs', s')" and a: "\<forall>b\<in>set bs'. b" for more bs' s'
  proof -
    have z': "0 \<le> m_loadedTextures s" "m_loadedTextures s \<le> int (length (m_textureIDs s))"
      using n r by simp_all
    note r' = CreateGLTextures_registry [OF c a z']
    have keep: "\<And>j. j < length regs \<Longrightarrow> m_textureIDs s' ! j = m_textureIDs s ! j"
      using r' n by simp
    have first': "\<forall>j. 0 \<le> j \<and> j < int i \<longrightarrow> TEXTURE_INFO.tag (m_textureIDs s' ! nat j) \<noteq> snd (regs ! i)"
    proof (intro allI impI)
      fix j assume j: "0 \<le> j \<and> j < int i"
      then have "nat j < length regs" using assms(5) by linarith
      then show "TEXTURE_INFO.tag (m_textureIDs s' ! nat j) \<noteq> snd (regs ! i)"
        using keep first j by simp
    qed
    show ?thesis
      unfolding FindTextureSlot_def
      using n r' assms(5) tags [OF assms(5)] keep [OF assms(5)] first'
      by (intro FindTextureSlot_while_hit) auto
  qed
  show ?thesis using here later by blast
qed

lemma example_two_textures:
  "\<exists>bs s. CreateGLTextures example_files
             [(''textures/wood.jpg'', ''wood''), (''textures/glasscup.jpg'', ''glasscup'')]
             example_scene = Inr (bs, s) \<and> (\<forall>b\<in>set bs. b)"
  by (simp add: CreateGLTexture_def stbi_load_def example_files_def example_scene_def
        texture_capacity_def glGenTextures_def glBindTexture_def glTexImage2D_def fresh_name_def)

theorem registered_slot_is_insertion_order_witness:
  "\<exists>bs s. CreateGLTextures example_files
             [(''textures/wood.jpg'', ''wood''), (''textures/glasscup.jpg'', ''glasscup'')]
             example_scene = Inr (bs, s) \<and> (\<forall>b\<in>set bs. b)
        \<and> FindTextureSlot ''wood'' s = Inr 0 \<and> FindTextureSlot ''glasscup'' s = Inr 1"
proof -
  let ?regs = "[(''textures/wood.jpg'', ''wood''), (''textures/glasscup.jpg'', ''glasscup'')]"
  obtain bs s where c: "CreateGLTextures example_files ?regs example_scene = Inr (bs, s)"
    and a: "\<forall>b\<in>set bs. b"
    using example_two_textures by blast
  have z: "m_loadedTextures example_scene = 0" by (simp add: example_scene_def)
  have d: "distinct (map snd ?regs)" by simp
  have "FindTextureSlot ''wood'' s = Inr 0"
    using registered_slot_is_insertion_order [OF z c a d, of 0] by simp
  moreover have "FindTextureSlot ''glasscup'' s = Inr 1"
    using registered_slot_is_insertion_order [OF z c a d, of 1] by simp
  ultimately show ?thesis using c a by blast
qed

subsection \<open>Registration and the size of the array\<close>

lemma CreateGLTexture_valid:
  assumes "stbi_load fs filename = Some img" and "colorChannels img = 3 \<or> colorChannels img = 4"
  shows "CreateGLTexture fs filename tg s =
     (if 0 \<le> m_loadedTextures s \<and> m_loadedTextures s < int (length (m_textureIDs s))
      then Inr (True,
             s\<lparr>m_loadedTextures := m_loadedTextures s + 1,
               m_textureIDs := (m_textureIDs s)[nat (m_loadedTextures s) :=
                  \<lparr>ID = fresh_name (gl_names (gl s)), tag = tg\<rparr>],
               gl := glBindTexture 0
                      (glTexImage2D (if colorChannels img = 3 then GL_RGB else GL_RGBA) img
                        (glBindTexture (fresh_name (gl_names (gl s)))
                          (snd (glGenTextures (gl s)))))\<rparr>)
      else Inl OutOfBounds)"
  using assms by (auto simp: CreateGLTexture_def glGenTextures_def Let_def)

lemma CreateGLTextures_overflow:
  assumes "\<forall>r\<in>set regs. \<exists>img. stbi_load fs (fst r) = Some img
              \<and> (colorChannels img = 3 \<or> colorChannels img = 4)"
    and "0 \<le> m_loadedTextures s"
    and "m_loadedTextures s \<le> int (length (m_textureIDs s))"
    and "int (length (m_textureIDs s)) < m_loadedTextures s + int (length regs)"
  shows "CreateGLTextures fs regs s = Inl OutOfBounds"
  using assms
proof (induction regs arbitrary: s)
  case Nil
  then show ?case by simp
next
  case (Cons r regs)
  obtain filename tg where r: "r = (filename, tg)" by (cases r)
  from Cons.prems(1) r obtain img where img: "stbi_load fs filename = Some img"
    "colorChannels img = 3 \<or> colorChannels img = 4" by auto
  note v = CreateGLTexture_valid [OF img, of tg s]
  show ?case
  proof (cases "m_loadedTextures s < int (length (m_textureIDs s))")
    case False
    then show ?thesis using v r by simp
  next
    case True
    let ?s1 = "s\<lparr>m_loadedTextures := m_loadedTextures s + 1,
               m_textureIDs := (m_textureIDs s)[nat (m_loadedTextures s) :=
                  \<lparr>ID = fresh_name (gl_names (gl s)), tag = tg\<rparr>],
               gl := glBindTexture 0
                      (glTexImage2D (if colorChannels img = 3 then GL_RGB else GL_RGBA) img
                        (glBindTexture (fresh_name (gl_names (gl s)))
                          (snd (glGenTextures (gl s)))))\<rparr>"
    have c: "CreateGLTexture fs filename tg s = Inr (True, ?s1)"
      using v True Cons.prems(2) by simp
    have "CreateGLTextures fs regs ?s1 = Inl OutOfBounds"
      using Cons.prems True by (intro Cons.IH) auto
    then show ?thesis using c r by simp
  qed
qed

text \<open>
  Claim C8 as it is stated fails on seventeen registrations of a decodable three-channel
  image into the empty registry of sixteen slots: the seventeenth call is neither rejected
  nor a clean failure, it is the out-of-bounds store.
\<close>
theorem seventeenth_registration_counterexample:
  "CreateGLTextures example_files (replicate 17 (''textures/wood.jpg'', ''wood'')) example_scene
     = Inl OutOfBounds"
  by (rule CreateGLTextures_overflow)
     (simp_all add: stbi_load_def example_files_def example_scene_def texture_capacity_def)

subsection \<open>Binding\<close>

lemma BindGLTextures_for_units:
  assumes "0 \<le> i" and "m_loadedTextures s \<le> int (length (m_textureIDs s))"
    and "m_loadedTextures s \<le> int (gl_max_units (gl s))"
  shows "\<exists>s'. BindGLTextures_for i s = Inr s'
       \<and> m_textureIDs s' = m_textureIDs s \<and> m_loadedTextures s' = m_loadedTextures s
       \<and> m_objectMaterials s' = m_objectMaterials s \<and> m_pShaderManager s' = m_pShaderManager s
       \<and> gl_names (gl s') = gl_names (gl s) \<and> gl_max_units (gl s') = gl_max_units (gl s)
       \<and> (\<forall>u. i \<le> int u \<and> int u < m_loadedTextures s \<longrightarrow>
              gl_units (gl s') u = ID (m_textureIDs s ! u))
       \<and> (\<forall>u. \<not> (i \<le> int u \<and> int u < m_loadedTextures s) \<longrightarrow>
              gl_units (gl s') u = gl_units (gl s) u)"
  using assms
proof (induction "nat (m_loadedTextures s - i)" arbitrary: i s)
  case 0
  then show ?case by (subst BindGLTextures_for.simps) auto
next
  case (Suc k)
  then have lt: "i < m_loadedTextures s" by linarith
  have rd: "textureIDs_at s i = Inr (m_textureIDs s ! nat i)"
    using Suc.prems lt by (simp add: textureIDs_at_def)
  let ?g = "glBindTexture (ID (m_textureIDs s ! nat i)) (glActiveTexture i (gl s))"
  let ?s1 = "s\<lparr>gl := ?g\<rparr>"
  have act: "glActiveTexture i (gl s) = (gl s)\<lparr>gl_active := nat i\<rparr>"
    using Suc.prems lt by (simp add: glActiveTexture_def)
  have g: "?g = (gl s)\<lparr>gl_active := nat i,
                       gl_units := (gl_units (gl s))(nat i := ID (m_textureIDs s ! nat i))\<rparr>"
    by (simp add: act glBindTexture_def)
  have gu: "gl_units ?g u =
      (if u = nat i then ID (m_textureIDs s ! nat i) else gl_units (gl s) u)" for u
    by (simp add: g)
  have step: "BindGLTextures_for i s = BindGLTextures_for (i + 1) ?s1"
    using lt rd by (subst BindGLTextures_for.simps) simp
  have "\<exists>s'. BindGLTextures_for (i + 1) ?s1 = Inr s'
       \<and> m_textureIDs s' = m_textureIDs ?s1 \<and> m_loadedTextures s' = m_loadedTextures ?s1
       \<and> m_objectMaterials s' = m_objectMaterials ?s1 \<and> m_pShaderManager s' = m_pShaderManager ?s1
       \<and> gl_names (gl s') = gl_names (gl ?s1) \<and> gl_max_units (gl s') = gl_max_units (gl ?s1)
       \<and> (\<forall>u. i + 1 \<le> int u \<and> int u < m_loadedTextures ?s1 \<longrightarrow>
              gl_units (gl s') u = ID (m_textureIDs ?s1 ! u))
       \<and> (\<forall>u. \<not> (i + 1 \<le> int u \<and> int u < m_loadedTextures ?s1) \<longrightarrow>
              gl_units (gl s') u = gl_units (gl ?s1) u)"
    using Suc.hyps Suc.prems by (intro Suc.hyps(1)) (auto simp: g)
  then obtain s' where s': "BindGLTextures_for (i + 1) ?s1 = Inr s'"
      "m_textureIDs s' = m_textureIDs s" "m_loadedTextures s' = m_loadedTextures s"
      "m_objectMaterials s' = m_objectMaterials s" "m_pShaderManager s' = m_pShaderManager s"
      "gl_names (gl s') = gl_names (gl s)" "gl_max_units (gl s') = gl_max_units (gl s)"
      and hi: "\<forall>u. i + 1 \<le> int u \<and> int u < m_loadedTextures s \<longrightarrow>
              gl_units (gl s') u = ID (m_textureIDs s ! u)"
      and lo: "\<forall>u. \<not> (i + 1 \<le> int u \<and> int u < m_loadedTextures s) \<longrightarrow>
              gl_units (gl s') u = gl_units ?g u"
    by (auto simp: g)
  have a: "\<forall>u. i \<le> int u \<and> int u < m_loadedTextures s \<longrightarrow>
              gl_units (gl s') u = ID (m_textureIDs s ! u)"
  proof (intro allI impI)
    fix u assume u: "i \<le> int u \<and> int u < m_loadedTextures s"
    show "gl_units (gl s') u = ID (m_textureIDs s ! u)"
    proof (cases "int u = i")
      case True
      then have e: "u = nat i" by simp
      have "gl_units (gl s') u = gl_units ?g u" using lo True by simp
      also have "\<dots> = ID (m_textureIDs s ! nat i)" unfolding gu using e by simp
      finally show ?thesis using e by simp
    next
      case False
      then show ?thesis using hi u by simp
    qed
  qed
  have b: "\<forall>u. \<not> (i \<le> int u \<and> int u < m_loadedTextures s) \<longrightarrow>
              gl_units (gl s') u = gl_units (gl s) u"
  proof (intro allI impI)
    fix u assume u: "\<not> (i \<le> int u \<and> int u < m_loadedTextures s)"
    then have "\<not> (i + 1 \<le> int u \<and> int u < m_loadedTextures s)" by linarith
    then have "gl_units (gl s') u = gl_units ?g u" using lo by simp
    moreover have "u \<noteq> nat i" using u lt Suc.prems(1) by linarith
    ultimately show "gl_units (gl s') u = gl_units (gl s) u" unfolding gu by simp
  qed
  show ?case unfolding step using s' a b by simp
qed

text \<open>
  Claim C6. On a registry whose counter exceeds neither the size of the array nor the
  number of texture units of the hardware, \<^const>\<open>BindGLTextures\<close> returns normally, leaves
  the registry as it is, and afterwards every unit \<open>u\<close> below the counter has the texture
  of entry \<open>u\<close> bound: unit 0 the first registered texture, unit 1 the second, and so on.
  When the registry was filled by successful registrations into an empty one, entry \<open>u\<close>
  is the one registered at position \<open>u\<close>, so the units follow the order of insertion.
  The witness is the scenario of the spec: "wood" then "glasscup" are registered and all
  textures bound; unit 0 then holds the handle stored with "wood" and unit 1 the handle
  stored with "glasscup".
\<close>
theorem BindGLTextures_sequential_units:
  assumes "m_loadedTextures s \<le> int (length (m_textureIDs s))"
    and "m_loadedTextures s \<le> int (gl_max_units (gl s))"
  shows "\<exists>s'. BindGLTextures s = Inr s'
       \<and> m_textureIDs s' = m_textureIDs s \<and> m_loadedTextures s' = m_loadedTextures s
       \<and> (\<forall>u. int u < m_loadedTextures s \<longrightarrow> gl_units (gl s') u = ID (m_textureIDs s ! u))
       \<and> (\<forall>fs regs s0 bs.
             m_loadedTextures s0 = 0 \<and> CreateGLTextures fs regs s0 = Inr (bs, s)
               \<and> (\<forall>b\<in>set bs. b) \<longrightarrow>
             (\<forall>i<length regs. TEXTURE_INFO.tag (m_textureIDs s' ! i) = snd (regs ! i)
                               \<and> gl_units (gl s') i = ID (m_textureIDs s' ! i)))"
proof -
  have z: "(0::int) \<le> 0" by simp
  from BindGLTextures_for_units [OF z assms] obtain s' where
    b: "BindGLTextures s = Inr s'" "m_textureIDs s' = m_textureIDs s"
       "m_loadedTextures s' = m_loadedTextures s"
    and u: "\<forall>u. int u < m_loadedTextures s \<longrightarrow> gl_units (gl s') u = ID (m_textureIDs s ! u)"
    unfolding BindGLTextures_def by auto
  have "TEXTURE_INFO.tag (m_textureIDs s' ! i) = snd (regs ! i)
          \<and> gl_units (gl s') i = ID (m_textureIDs s' ! i)"
    if c: "m_loadedTextures s0 = 0 \<and> CreateGLTextures fs regs s0 = Inr (bs, s) \<and> (\<forall>b\<in>set bs. b)"
      and i: "i < length regs" for fs regs s0 bs i
  proof -
    have z0: "0 \<le> m_loadedTextures s0" "m_loadedTextures s0 \<le> int (length (m_textureIDs s0))"
      using c by simp_all
    from c have c1: "CreateGLTextures fs regs s0 = Inr (bs, s)" and c2: "\<forall>b\<in>set bs. b"
      by blast+
    note r = CreateGLTextures_registry [OF c1 c2 z0]
    have "m_loadedTextures s = int (length regs)" using r c by simp
    moreover have "TEXTURE_INFO.tag (m_textureIDs s ! i) = snd (regs ! i)" using r c i by simp
    ultimately show ?thesis using u b i by simp
  qed
  then show ?thesis using b u by blast
qed

text \<open>The two-texture scenario, evaluated.\<close>
lemma example_two_textures_state:
  "\<exists>bs s. CreateGLTextures example_files
             [(''textures/wood.jpg'', ''wood''), (''textures/glasscup.jpg'', ''glasscup'')]
             example_scene = Inr (bs, s) \<and> (\<forall>b\<in>set bs. b)
         \<and> m_loadedTextures s = 2 \<and> length (m_textureIDs s) = 16 \<and> gl_max_units (gl s) = 16
         \<and> m_textureIDs s ! 0 = \<lparr>ID = 1, tag = ''wood''\<rparr>
         \<and> m_textureIDs s ! 1 = \<lparr>ID = 2, tag = ''glasscup''\<rparr>"
  by (simp add: CreateGLTexture_def stbi_load_def example_files_def example_scene_def
        texture_capacity_def glGenTextures_def glBindTexture_def glTexImage2D_def fresh_name_def)

theorem BindGLTextures_sequential_units_witness:
  "\<exists>bs s2 s3. CreateGLTextures example_files
             [(''textures/wood.jpg'', ''wood''), (''textures/glasscup.jpg'', ''glasscup'')]
             example_scene = Inr (bs, s2) \<and> (\<forall>b\<in>set bs. b)
         \<and> BindGLTextures s2 = Inr s3
         \<and> TEXTURE_INFO.tag (m_textureIDs s3 ! 0) = ''wood''
         \<and> gl_units (gl s3) 0 = ID (m_textureIDs s3 ! 0) \<and> gl_units (gl s3) 0 = 1
         \<and> TEXTURE_INFO.tag (m_textureIDs s3 ! 1) = ''glasscup''
         \<and> gl_units (gl s3) 1 = ID (m_textureIDs s3 ! 1) \<and> gl_units (gl s3) 1 = 2"
proof -
  let ?regs = "[(''textures/wood.jpg'', ''wood''), (''textures/glasscup.jpg'', ''glasscup'')]"
  obtain bs s2 where c: "CreateGLTextures example_files ?regs example_scene = Inr (bs, s2)"
      "\<forall>b\<in>set bs. b"
    and n: "m_loadedTextures s2 = 2" "length (m_textureIDs s2) = 16" "gl_max_units (gl s2) = 16"
    and e: "m_textureIDs s2 ! 0 = \<lparr>ID = 1, tag = ''wood''\<rparr>"
           "m_textureIDs s2 ! 1 = \<lparr>ID = 2, tag = ''glasscup''\<rparr>"
    using example_two_textures_state by blast
  have z: "m_loadedTextures example_scene = 0" by (simp add: example_scene_def)
  have h1: "m_loadedTextures s2 \<le> int (length (m_textureIDs s2))" using n by simp
  have h2: "m_loadedTextures s2 \<le> int (gl_max_units (gl s2))" using n by simp
  from BindGLTextures_sequential_units [OF h1 h2] obtain s3 where
    b: "BindGLTextures s2 = Inr s3" "m_textureIDs s3 = m_textureIDs s2"
    and u: "\<forall>u. int u < m_loadedTextures s2 \<longrightarrow> gl_units (gl s3) u = ID (m_textureIDs s2 ! u)"
    and o: "\<forall>fs regs s0 bs.
             m_loadedTextures s0 = 0 \<and> CreateGLTextures fs regs s0 = Inr (bs, s2)
               \<and> (\<forall>b\<in>set bs. b) \<longrightarrow>
             (\<forall>i<length regs. TEXTURE_INFO.tag (m_textureIDs s3 ! i) = snd (regs ! i)
                               \<and> gl_units (gl s3) i = ID (m_textureIDs s3 ! i))"
    by blast
  from o z c have order: "\<forall>i<length ?regs.
      TEXTURE_INFO.tag (m_textureIDs s3 ! i) = snd (?regs ! i)
        \<and> gl_units (gl s3) i = ID (m_textureIDs s3 ! i)"
    by blast
  have w: "TEXTURE_INFO.tag (m_textureIDs s3 ! 0) = ''wood''
         \<and> gl_units (gl s3) 0 = ID (m_textureIDs s3 ! 0)"
    using order by simp
  have g: "TEXTURE_INFO.tag (m_textureIDs s3 ! 1) = ''glasscup''
         \<and> gl_units (gl s3) 1 = ID (m_textureIDs s3 ! 1)"
    using order by simp
  have "gl_units (gl s3) 0 = 1" using u n e by simp
  moreover have "gl_units (gl s3) 1 = 2" using u n e by simp
  ultimately show ?thesis using c b w g by blast
qed

lemma CreateGLTextures_fits:
  assumes "\<forall>r\<in>set regs. \<exists>img. stbi_load fs (fst r) = Some img
              \<and> (colorChannels img = 3 \<or> colorChannels img = 4)"
    and "0 \<le> m_loadedTextures s"
    and "m_loadedTextures s + int (length regs) \<le> int (length (m_textureIDs s))"
  shows "\<exists>s'. CreateGLTextures fs regs s = Inr (replicate (length regs) True, s')
       \<and> m_loadedTextures s' = m_loadedTextures s + int (length regs)
       \<and> length (m_textureIDs s') = length (m_textureIDs s)"
  using assms
proof (induction regs arbitrary: s)
  case Nil
  then show ?case by simp
next
  case (Cons r regs)
  obtain filename tg where r: "r = (filename, tg)" by (cases r)
  from Cons.prems(1) r obtain img where img: "stbi_load fs filename = Some img"
    "colorChannels img = 3 \<or> colorChannels img = 4" by auto
  let ?s1 = "s\<lparr>m_loadedTextures := m_loadedTextures s + 1,
               m_textureIDs := (m_textureIDs s)[nat (m_loadedTextures s) :=
                  \<lparr>ID = fresh_name (gl_names (gl s)), tag = tg\<rparr>],
               gl := glBindTexture 0
                      (glTexImage2D (if colorChannels img = 3 then GL_RGB else GL_RGBA) img
                        (glBindTexture (fresh_name (gl_names (gl s)))
                          (snd (glGenTextures (gl s)))))\<rparr>"
  have c: "CreateGLTexture fs filename tg s = Inr (True, ?s1)"
    using CreateGLTexture_valid [OF img, of tg s] Cons.prems by simp
  have "\<exists>s'. CreateGLTextures fs regs ?s1 = Inr (replicate (length regs) True, s')
       \<and> m_loadedTextures s' = m_loadedTextures ?s1 + int (length regs)
       \<and> length (m_textureIDs s') = length (m_textureIDs ?s1)"
    using Cons.prems by (intro Cons.IH) auto
  then show ?case using c r by auto
qed

text \<open>
  Claim C8, as amended. Registration compares the counter with nothing. From a registry
  with no texture loaded, a sequence of registrations of decodable 3- or 4-channel images
  that is no longer than the array all return \<open>true\<close>, leave the array at its size and
  the counter at the number of registrations; a longer sequence is neither rejected nor
  a clean failure: the registration that finds the counter at the size of the array
  stores past its end, which the model reports as \<^const>\<open>OutOfBounds\<close>.
\<close>
theorem CreateGLTexture_unchecked_index:
  assumes "\<forall>r\<in>set regs. \<exists>img. stbi_load fs (fst r) = Some img
              \<and> (colorChannels img = 3 \<or> colorChannels img = 4)"
    and "m_loadedTextures s = 0"
  shows "(length regs \<le> length (m_textureIDs s) \<longrightarrow>
            (\<exists>s'. CreateGLTextures fs regs s = Inr (replicate (length regs) True, s')
                 \<and> m_loadedTextures s' = int (length regs)
                 \<and> length (m_textureIDs s') = length (m_textureIDs s)))
       \<and> (length (m_textureIDs s) < length regs \<longrightarrow>
            CreateGLTextures fs regs s = Inl OutOfBounds)"
proof (intro conjI impI)
  assume "length regs \<le> length (m_textureIDs s)"
  then show "\<exists>s'. CreateGLTextures fs regs s = Inr (replicate (length regs) True, s')
                 \<and> m_loadedTextures s' = int (length regs)
                 \<and> length (m_textureIDs s') = length (m_textureIDs s)"
    using CreateGLTextures_fits [OF assms(1), of s] assms(2) by simp
next
  assume "length (m_textureIDs s) < length regs"
  then show "CreateGLTextures fs regs s = Inl OutOfBounds"
    using assms by (intro CreateGLTextures_overflow) auto
qed

theorem CreateGLTexture_unchecked_index_witness:
  "(\<exists>s'. CreateGLTextures example_files (replicate 16 (''textures/keyboard.png'', ''keyboard''))
           example_scene = Inr (replicate 16 True, s') \<and> m_loadedTextures s' = 16)
   \<and> CreateGLTextures example_files (replicate 17 (''textures/keyboard.png'', ''keyboard''))
        example_scene = Inl OutOfBounds"
proof -
  have v: "\<forall>r\<in>set (replicate n (''textures/keyboard.png'', ''keyboard'')).
       \<exists>img. stbi_load example_files (fst r) = Some img
              \<and> (colorChannels img = 3 \<or> colorChannels img = 4)" for n
    by (simp add: stbi_load_def example_files_def)
  have z: "m_loadedTextures example_scene = 0" by (simp add: example_scene_def)
  have l: "length (m_textureIDs example_scene) = 16"
    by (simp add: example_scene_def texture_capacity_def)
  show ?thesis
    using CreateGLTexture_unchecked_index [OF v z, of 16]
          CreateGLTexture_unchecked_index [OF v z, of 17] l
    by auto
qed

text \<open>
  Claim C4. Registering the one-channel image on the concrete scene returns \<open>false\<close> and
  leaves the registry and its counter as they were, but the OpenGL context is not as it
  was: \<^verbatim>\<open>glGenTextures\<close> and \<^verbatim>\<open>glBindTexture\<close> run before the channel count is looked at,
  so texture name 1 has been generated, where none was before, and is left bound on the
  active unit.
\<close>
theorem CreateGLTexture_one_channel_leaks_texture:
  "CreateGLTexture example_files ''textures/gray.png'' ''gray'' example_scene
     = Inr (False, example_scene\<lparr>gl := (gl example_scene)
              \<lparr>gl_names := [1], gl_units := (gl_units (gl example_scene))(0 := 1)\<rparr>\<rparr>)
   \<and> gl_names (gl example_scene) = []"
  by (simp add: CreateGLTexture_def stbi_load_def example_files_def example_scene_def
        glGenTextures_def glBindTexture_def fresh_name_def)

text \<open>
  The two failure paths in general: a file that does not decode changes nothing at all; an
  unsupported channel count leaves the registry alone and generates one texture name.
\<close>
lemma CreateGLTexture_missing_file:
  assumes "stbi_load fs filename = None"
  shows "CreateGLTexture fs filename tg s = Inr (False, s)"
  using assms by (simp add: CreateGLTexture_def)

lemma CreateGLTexture_unsupported_channels:
  assumes "stbi_load fs filename = Some img" and "colorChannels img \<noteq> 3"
    and "colorChannels img \<noteq> 4"
  shows "\<exists>s'. CreateGLTexture fs filename tg s = Inr (False, s')
        \<and> m_textureIDs s' = m_textureIDs s \<and> m_loadedTextures s' = m_loadedTextures s
        \<and> gl_names (gl s') = gl_names (gl s) @ [fresh_name (gl_names (gl s))]"
  using assms by (simp add: CreateGLTexture_def glGenTextures_def glBindTexture_def Let_def)

subsection \<open>DestroyGLTextures\<close>

lemma DestroyGLTextures_for_regenerates:
  assumes "0 \<le> i" and "m_loadedTextures s \<le> int (length (m_textureIDs s))"
  shows "\<exists>s' new. DestroyGLTextures_for i s = Inr s'
       \<and> m_loadedTextures s' = m_loadedTextures s
       \<and> m_objectMaterials s' = m_objectMaterials s \<and> m_pShaderManager s' = m_pShaderManager s
       \<and> map TEXTURE_INFO.tag (m_textureIDs s') = map TEXTURE_INFO.tag (m_textureIDs s)
       \<and> gl s' = (gl s)\<lparr>gl_names := gl_names (gl s) @ new\<rparr>
       \<and> (\<forall>u. i \<le> int u \<and> int u < m_loadedTextures s \<longrightarrow>
              ID (m_textureIDs s' ! u) \<in> set new \<and> ID (m_textureIDs s' ! u) \<notin> set (gl_names (gl s)))
       \<and> (\<forall>u. \<not> (i \<le> int u \<and> int u < m_loadedTextures s) \<longrightarrow>
              m_textureIDs s' ! u = m_textureIDs s ! u)"
  using assms
proof (induction "nat (m_loadedTextures s - i)" arbitrary: i s)
  case 0
  have "DestroyGLTextures_for i s = Inr s"
    using 0 by (subst DestroyGLTextures_for.simps) auto
  moreover have "gl s = (gl s)\<lparr>gl_names := gl_names (gl s) @ []\<rparr>" by simp
  moreover have "\<forall>u. \<not> (i \<le> int u \<and> int u < m_loadedTextures s)" using 0 by auto
  ultimately show ?case by (metis empty_iff empty_set)
next
  case (Suc k)
  then have lt: "i < m_loadedTextures s" by linarith
  then have ilen: "nat i < length (m_textureIDs s)" using Suc.prems by linarith
  have rd: "textureIDs_at s i = Inr (m_textureIDs s ! nat i)"
    using Suc.prems lt by (simp add: textureIDs_at_def)
  define f where "f = fresh_name (gl_names (gl s))"
  have fnew: "f \<notin> set (gl_names (gl s))" unfolding f_def by (rule fresh_name_notin)
  define s1 where "s1 = s\<lparr>m_textureIDs := (m_textureIDs s)[nat i := (m_textureIDs s ! nat i)\<lparr>ID := f\<rparr>],
                 gl := (gl s)\<lparr>gl_names := gl_names (gl s) @ [f]\<rparr>\<rparr>"
  have step: "DestroyGLTextures_for i s = DestroyGLTextures_for (i + 1) s1"
    using lt rd by (subst DestroyGLTextures_for.simps) (simp add: glGenTextures_def s1_def f_def Let_def)
  have s1: "m_loadedTextures s1 = m_loadedTextures s" "m_objectMaterials s1 = m_objectMaterials s"
    "m_pShaderManager s1 = m_pShaderManager s"
    "length (m_textureIDs s1) = length (m_textureIDs s)"
    "gl_names (gl s1) = gl_names (gl s) @ [f]"
    by (simp_all add: s1_def)
  have tags1: "map TEXTURE_INFO.tag (m_textureIDs s1) = map TEXTURE_INFO.tag (m_textureIDs s)"
    using ilen by (simp add: s1_def map_update list_update_same_conv)
  have "\<exists>s' new. DestroyGLTextures_for (i + 1) s1 = Inr s'
       \<and> m_loadedTextures s' = m_loadedTextures s1
       \<and> m_objectMaterials s' = m_objectMaterials s1 \<and> m_pShaderManager s' = m_pShaderManager s1
       \<and> map TEXTURE_INFO.tag (m_textureIDs s') = map TEXTURE_INFO.tag (m_textureIDs s1)
       \<and> gl s' = (gl s1)\<lparr>gl_names := gl_names (gl s1) @ new\<rparr>
       \<and> (\<forall>u. i + 1 \<le> int u \<and> int u < m_loadedTextures s1 \<longrightarrow>
              ID (m_textureIDs s' ! u) \<in> set new \<and> ID (m_textureIDs s' ! u) \<notin> set (gl_names (gl s1)))
       \<and> (\<forall>u. \<not> (i + 1 \<le> int u \<and> int u < m_loadedTextures s1) \<longrightarrow>
              m_textureIDs s' ! u = m_textureIDs s1 ! u)"
    using Suc.hyps Suc.prems s1 by (intro Suc.hyps(1)) auto
  then obtain s' new where s': "DestroyGLTextures_for (i + 1) s1 = Inr s'"
      "m_loadedTextures s' = m_loadedTextures s"
      "m_objectMaterials s' = m_objectMaterials s" "m_pShaderManager s' = m_pShaderManager s"
      "map TEXTURE_INFO.tag (m_textureIDs s') = map TEXTURE_INFO.tag (m_textureIDs s)"
      and g: "gl s' = (gl s1)\<lparr>gl_names := gl_names (gl s1) @ new\<rparr>"
      and hi: "\<forall>u. i + 1 \<le> int u \<and> int u < m_loadedTextures s \<longrightarrow>
              ID (m_textureIDs s' ! u) \<in> set new \<and> ID (m_textureIDs s' ! u) \<notin> set (gl_names (gl s1))"
      and lo: "\<forall>u. \<not> (i + 1 \<le> int u \<and> int u < m_loadedTextures s) \<longrightarrow>
              m_textureIDs s' ! u = m_textureIDs s1 ! u"
    using s1 tags1 by auto
  have g': "gl s' = (gl s)\<lparr>gl_names := gl_names (gl s) @ (f # new)\<rparr>"
    using g by (simp add: s1_def)
  have at_i: "m_textureIDs s' ! nat i = (m_textureIDs s ! nat i)\<lparr>ID := f\<rparr>"
  proof -
    have "\<not> (i + 1 \<le> int (nat i) \<and> int (nat i) < m_loadedTextures s)"
      using Suc.prems(1) by simp
    then have "m_textureIDs s' ! nat i = m_textureIDs s1 ! nat i" using lo by blast
    then show ?thesis using ilen by (simp add: s1_def)
  qed
  have a: "\<forall>u. i \<le> int u \<and> int u < m_loadedTextures s \<longrightarrow>
              ID (m_textureIDs s' ! u) \<in> set (f # new) \<and> ID (m_textureIDs s' ! u) \<notin> set (gl_names (gl s))"
  proof (intro allI impI)
    fix u assume u: "i \<le> int u \<and> int u < m_loadedTextures s"
    show "ID (m_textureIDs s' ! u) \<in> set (f # new) \<and> ID (m_textureIDs s' ! u) \<notin> set (gl_names (gl s))"
    proof (cases "int u = i")
      case True
      then have "u = nat i" by simp
      then show ?thesis using at_i fnew by simp
    next
      case False
      then have "i + 1 \<le> int u \<and> int u < m_loadedTextures s" using u by linarith
      then show ?thesis using hi s1 by simp
    qed
  qed
  have b: "\<forall>u. \<not> (i \<le> int u \<and> int u < m_loadedTextures s) \<longrightarrow>
              m_textureIDs s' ! u = m_textureIDs s ! u"
  proof (intro allI impI)
    fix u assume u: "\<not> (i \<le> int u \<and> int u < m_loadedTextures s)"
    then have "\<not> (i + 1 \<le> int u \<and> int u < m_loadedTextures s)" by linarith
    then have "m_textureIDs s' ! u = m_textureIDs s1 ! u" using lo by blast
    moreover have "u \<noteq> nat i" using u lt Suc.prems(1) by linarith
    ultimately show "m_textureIDs s' ! u = m_textureIDs s ! u" by (simp add: s1_def)
  qed
  show ?case unfolding step using s' g' a b by blast
qed

text \<open>
  Claim C9. On a registry whose counter does not exceed the size of the array,
  \<^const>\<open>DestroyGLTextures\<close> returns normally with the counter and every tag unchanged. The
  OpenGL context afterwards is the one before with newly generated names appended to the
  names in use: no name is released and nothing else in the context changes. Every loaded
  entry then stores one of the new names, which was not in use before the call.
\<close>
theorem DestroyGLTextures_regenerates:
  assumes "m_loadedTextures s \<le> int (length (m_textureIDs s))"
  shows "\<exists>s' new. DestroyGLTextures s = Inr s'
       \<and> m_loadedTextures s' = m_loadedTextures s
       \<and> map TEXTURE_INFO.tag (m_textureIDs s') = map TEXTURE_INFO.tag (m_textureIDs s)
       \<and> gl s' = (gl s)\<lparr>gl_names := gl_names (gl s) @ new\<rparr>
       \<and> (\<forall>u. int u < m_loadedTextures s \<longrightarrow>
              ID (m_textureIDs s' ! u) \<in> set new \<and> ID (m_textureIDs s' ! u) \<notin> set (gl_names (gl s)))"
proof -
  have z: "(0::int) \<le> 0" by simp
  from DestroyGLTextures_for_regenerates [OF z assms] show ?thesis
    unfolding DestroyGLTextures_def by (auto simp: DestroyGLTextures_def) 
qed

lemma example_two_textures_names:
  "\<exists>bs s. CreateGLTextures example_files
             [(''textures/wood.jpg'', ''wood''), (''textures/glasscup.jpg'', ''glasscup'')]
             example_scene = Inr (bs, s)
         \<and> m_loadedTextures s = 2 \<and> length (m_textureIDs s) = 16
         \<and> gl_names (gl s) = [1, 2]
         \<and> map TEXTURE_INFO.tag (take 2 (m_textureIDs s)) = [''wood'', ''glasscup'']"
  by (simp add: CreateGLTexture_def stbi_load_def example_files_def example_scene_def
        texture_capacity_def glGenTextures_def glBindTexture_def glTexImage2D_def fresh_name_def
        eval_nat_numeral)

theorem DestroyGLTextures_regenerates_witness:
  "\<exists>bs s2 s3. CreateGLTextures example_files
             [(''textures/wood.jpg'', ''wood''), (''textures/glasscup.jpg'', ''glasscup'')]
             example_scene = Inr (bs, s2)
         \<and> DestroyGLTextures s2 = Inr s3
         \<and> m_loadedTextures s2 = 2 \<and> m_loadedTextures s3 = 2
         \<and> map TEXTURE_INFO.tag (take 2 (m_textureIDs s3)) = [''wood'', ''glasscup'']
         \<and> set (gl_names (gl s2)) = {1, 2} \<and> {1, 2} \<subseteq> set (gl_names (gl s3))
         \<and> ID (m_textureIDs s3 ! 0) \<notin> {1, 2} \<and> ID (m_textureIDs s3 ! 1) \<notin> {1, 2}"
proof -
  obtain bs s2 where c: "CreateGLTextures example_files
             [(''textures/wood.jpg'', ''wood''), (''textures/glasscup.jpg'', ''glasscup'')]
             example_scene = Inr (bs, s2)"
    and n: "m_loadedTextures s2 = 2" "length (m_textureIDs s2) = 16"
    and g: "gl_names (gl s2) = [1, 2]"
    and t: "map TEXTURE_INFO.tag (take 2 (m_textureIDs s2)) = [''wood'', ''glasscup'']"
    using example_two_textures_names by auto
  have h: "m_loadedTextures s2 \<le> int (length (m_textureIDs s2))" using n by simp
  from DestroyGLTextures_regenerates [OF h] obtain s3 new where
    d: "DestroyGLTextures s2 = Inr s3" "m_loadedTextures s3 = m_loadedTextures s2"
    and tg: "map TEXTURE_INFO.tag (m_textureIDs s3) = map TEXTURE_INFO.tag (m_textureIDs s2)"
    and gn: "gl s3 = (gl s2)\<lparr>gl_names := gl_names (gl s2) @ new\<rparr>"
    and u: "\<forall>u. int u < m_loadedTextures s2 \<longrightarrow>
              ID (m_textureIDs s3 ! u) \<in> set new \<and> ID (m_textureIDs s3 ! u) \<notin> set (gl_names (gl s2))"
    by blast
  have t3: "map TEXTURE_INFO.tag (take 2 (m_textureIDs s3)) = [''wood'', ''glasscup'']"
    using tg t by (simp add: take_map [symmetric])
  have "ID (m_textureIDs s3 ! 0) \<notin> {1, 2}" using u n g by simp
  moreover have "ID (m_textureIDs s3 ! 1) \<notin> {1, 2}" using u n g by simp
  moreover have "{1, 2} \<subseteq> set (gl_names (gl s3))" using gn g by simp
  moreover have "set (gl_names (gl s2)) = {1, 2}" using g by simp
  ultimately show ?thesis using c d n t3 by auto
qed

section \<open>Properties of the material registry\<close>

lemma FindMaterial_while_found: "FindMaterial_while ms tg (i, True, mat) = (i, True, mat)"
  by (simp add: FindMaterial_while.simps)

lemma FindMaterial_while_miss:
  assumes "0 \<le> i"
    and "\<forall>j. i \<le> j \<and> j < int (length ms) \<longrightarrow> OBJECT_MATERIAL.tag (ms ! nat j) \<noteq> tg"
  shows "snd (FindMaterial_while ms tg (i, False, mat)) = (False, mat)"
  using assms
proof (induction "nat (int (length ms) - i)" arbitrary: i)
  case 0
  then show ?case by (simp add: FindMaterial_while.simps)
next
  case (Suc k)
  then have lt: "i < int (length ms)" by linarith
  have ne: "OBJECT_MATERIAL.tag (ms ! nat i) \<noteq> tg" using Suc.prems lt by simp
  have "snd (FindMaterial_while ms tg (i + 1, False, mat)) = (False, mat)"
    using Suc.hyps Suc.prems by (intro Suc.hyps(1)) auto
  then show ?case
    using lt ne Suc.prems(1) by (subst FindMaterial_while.simps) simp
qed

lemma FindMaterial_while_hit:
  assumes "0 \<le> i" and "i \<le> k" and "k < int (length ms)"
    and "OBJECT_MATERIAL.tag (ms ! nat k) = tg"
    and "\<forall>j. i \<le> j \<and> j < k \<longrightarrow> OBJECT_MATERIAL.tag (ms ! nat j) \<noteq> tg"
  shows "FindMaterial_while ms tg (i, False, mat) =
           (k, True, mat\<lparr>diffuseColor := diffuseColor (ms ! nat k),
                         specularColor := specularColor (ms ! nat k),
                         shininess := shininess (ms ! nat k)\<rparr>)"
  using assms
proof (induction "nat (k - i)" arbitrary: i)
  case 0
  then have ik: "i = k" by simp
  show ?case
    using "0.prems" unfolding ik
    by (subst FindMaterial_while.simps) (simp add: FindMaterial_while_found)
next
  case (Suc n)
  then have lt: "i < k" by linarith
  have ne: "OBJECT_MATERIAL.tag (ms ! nat i) \<noteq> tg" using Suc.prems lt by simp
  have "FindMaterial_while ms tg (i + 1, False, mat) =
           (k, True, mat\<lparr>diffuseColor := diffuseColor (ms ! nat k),
                         specularColor := specularColor (ms ! nat k),
                         shininess := shininess (ms ! nat k)\<rparr>)"
    using Suc.hyps Suc.prems lt by (intro Suc.hyps(1)) auto
  then show ?case
    using lt ne Suc.prems by (subst FindMaterial_while.simps) simp
qed

lemma FindMaterial_miss:
  assumes "m_objectMaterials s \<noteq> []"
    and "\<forall>m\<in>set (m_objectMaterials s). OBJECT_MATERIAL.tag m \<noteq> tg"
  shows "FindMaterial tg mat s = (True, mat)"
proof -
  have "\<forall>j. 0 \<le> j \<and> j < int (length (m_objectMaterials s)) \<longrightarrow>
          OBJECT_MATERIAL.tag (m_objectMaterials s ! nat j) \<noteq> tg"
    using assms(2) by (simp add: nat_less_iff)
  then have "snd (FindMaterial_while (m_objectMaterials s) tg (0, False, mat)) = (False, mat)"
    by (intro FindMaterial_while_miss) auto
  then show ?thesis using assms(1)
    by (auto simp: FindMaterial_def split: prod.splits)
qed

lemma FindMaterial_first:
  assumes "m_objectMaterials s = pre @ m # post"
    and "\<forall>x\<in>set pre. OBJECT_MATERIAL.tag x \<noteq> tg" and "OBJECT_MATERIAL.tag m = tg"
  shows "FindMaterial tg mat s =
           (True, mat\<lparr>diffuseColor := diffuseColor m, specularColor := specularColor m,
                      shininess := shininess m\<rparr>)"
proof -
  let ?ms = "m_objectMaterials s"
  let ?k = "int (length pre)"
  have k: "?ms ! nat ?k = m" using assms(1) by simp
  have "\<forall>j. 0 \<le> j \<and> j < ?k \<longrightarrow> OBJECT_MATERIAL.tag (?ms ! nat j) \<noteq> tg"
  proof (intro allI impI)
    fix j assume j: "0 \<le> j \<and> j < ?k"
    then have "nat j < length pre" by linarith
    then have "?ms ! nat j = pre ! nat j" "pre ! nat j \<in> set pre"
      using assms(1) by (simp_all add: nth_append)
    then show "OBJECT_MATERIAL.tag (?ms ! nat j) \<noteq> tg" using assms(2) by simp
  qed
  then have "FindMaterial_while ?ms tg (0, False, mat) =
           (?k, True, mat\<lparr>diffuseColor := diffuseColor (?ms ! nat ?k),
                         specularColor := specularColor (?ms ! nat ?k),
                         shininess := shininess (?ms ! nat ?k)\<rparr>)"
    using assms(1,3) k by (intro FindMaterial_while_hit) auto
  then show ?thesis using assms(1) k by (simp add: FindMaterial_def)
qed

lemma fold_push_back:
  "m_objectMaterials (fold push_back later s) = m_objectMaterials s @ later"
  by (induction later arbitrary: s) (simp_all add: push_back_def)

lemma DefineObjectMaterials_pushes:
  "m_objectMaterials (DefineObjectMaterials s) =
     m_objectMaterials s @
       \<lparr>diffuseColor = (0.6, 0.5, 0.4), specularColor = (0.5, 0.5, 0.5),
         shininess = 64, tag = ''wood''\<rparr> #
       [\<lparr>diffuseColor = (0.7, 0.7, 0.8), specularColor = (1, 1, 1),
          shininess = 128, tag = ''glass''\<rparr>,
        \<lparr>diffuseColor = (0.4, 0.4, 0.4), specularColor = (0.7, 0.7, 0.6),
          shininess = 52, tag = ''metal''\<rparr>,
        \<lparr>diffuseColor = (0.5, 0.4, 0.3), specularColor = (0.01, 0.01, 0.01),
          shininess = 0.001, tag = ''leather''\<rparr>,
        \<lparr>diffuseColor = (0.7, 0.6, 0.5), specularColor = (0.02, 0.02, 0.02),
          shininess = 0.001, tag = ''canvas''\<rparr>]"
  by (simp add: DefineObjectMaterials_def push_back_def)

text \<open>
  Claim C7. Defining a material is \<^const>\<open>push_back\<close>, which appends whatever it is given:
  a material whose tag is already present is accepted. On every registry, whatever its
  length and whatever follows, \<^const>\<open>FindMaterial\<close> returns \<open>true\<close> with the diffuse colour,
  specular colour and shininess of the first entry that carries the tag: if the registry
  is \<open>pre @ m1 # post\<close>, no entry of \<open>pre\<close> has the tag and \<open>m1\<close> has it, the values are
  those of \<open>m1\<close>, also when entries of \<open>post\<close> have the tag too. In particular, defining
  \<open>m1\<close> and then a duplicate \<open>m2\<close> on a registry without the tag keeps both and finds
  \<open>m1\<close>; and after \<^const>\<open>DefineObjectMaterials\<close> on a registry without "wood", followed by
  any further definitions, duplicates of "wood" among them, the lookup of "wood" returns
  the values defined first (shininess 64). The witness runs all three: "wood" with
  shininess 64 then 128; a registry holding glass, wood 64, another wood 128 and metal;
  and \<^const>\<open>DefineObjectMaterials\<close> followed by a second "wood" with shininess 128.
\<close>
theorem FindMaterial_first_inserted_wins:
  assumes "\<forall>x\<in>set pre. OBJECT_MATERIAL.tag x \<noteq> tg" and "OBJECT_MATERIAL.tag m1 = tg"
  shows "m_objectMaterials (push_back m s) = m_objectMaterials s @ [m]
       \<and> (m_objectMaterials s = pre @ m1 # post \<longrightarrow>
            FindMaterial tg mat s =
              (True, mat\<lparr>diffuseColor := diffuseColor m1, specularColor := specularColor m1,
                         shininess := shininess m1\<rparr>))
       \<and> (m_objectMaterials s = pre \<and> OBJECT_MATERIAL.tag m2 = tg \<longrightarrow>
            m_objectMaterials (push_back m2 (push_back m1 s)) = pre @ [m1, m2]
            \<and> FindMaterial tg mat (push_back m2 (push_back m1 s)) =
                (True, mat\<lparr>diffuseColor := diffuseColor m1, specularColor := specularColor m1,
                           shininess := shininess m1\<rparr>))
       \<and> ((\<forall>x\<in>set (m_objectMaterials s). OBJECT_MATERIAL.tag x \<noteq> ''wood'') \<longrightarrow>
            (\<forall>later. FindMaterial ''wood'' mat (fold push_back later (DefineObjectMaterials s)) =
                (True, mat\<lparr>diffuseColor := (0.6, 0.5, 0.4), specularColor := (0.5, 0.5, 0.5),
                           shininess := 64\<rparr>)))"
proof (intro conjI impI allI)
  show "m_objectMaterials (push_back m s) = m_objectMaterials s @ [m]"
    by (simp add: push_back_def)
next
  assume "m_objectMaterials s = pre @ m1 # post"
  then show "FindMaterial tg mat s =
              (True, mat\<lparr>diffuseColor := diffuseColor m1, specularColor := specularColor m1,
                         shininess := shininess m1\<rparr>)"
    using assms by (rule FindMaterial_first)
next
  assume a: "m_objectMaterials s = pre \<and> OBJECT_MATERIAL.tag m2 = tg"
  then show ms: "m_objectMaterials (push_back m2 (push_back m1 s)) = pre @ [m1, m2]"
    by (simp add: push_back_def)
  then have "m_objectMaterials (push_back m2 (push_back m1 s)) = pre @ m1 # [m2]" by simp
  then show "FindMaterial tg mat (push_back m2 (push_back m1 s)) =
                (True, mat\<lparr>diffuseColor := diffuseColor m1, specularColor := specularColor m1,
                           shininess := shininess m1\<rparr>)"
    using assms by (rule FindMaterial_first)
next
  fix later
  assume w: "\<forall>x\<in>set (m_objectMaterials s). OBJECT_MATERIAL.tag x \<noteq> ''wood''"
  let ?wood = "\<lparr>diffuseColor = (0.6, 0.5, 0.4), specularColor = (0.5, 0.5, 0.5),
                 shininess = 64, tag = ''wood''\<rparr>"
  have "\<exists>post. m_objectMaterials (fold push_back later (DefineObjectMaterials s)) =
          m_objectMaterials s @ ?wood # post"
    by (simp add: fold_push_back DefineObjectMaterials_pushes)
  then obtain post where
    p: "m_objectMaterials (fold push_back later (DefineObjectMaterials s)) =
          m_objectMaterials s @ ?wood # post"
    by blast
  have t: "OBJECT_MATERIAL.tag ?wood = ''wood''" by simp
  from FindMaterial_first [OF p w t, of mat]
  show "FindMaterial ''wood'' mat (fold push_back later (DefineObjectMaterials s)) =
                (True, mat\<lparr>diffuseColor := (0.6, 0.5, 0.4), specularColor := (0.5, 0.5, 0.5),
                           shininess := 64\<rparr>)"
    by simp
qed

theorem FindMaterial_first_inserted_wins_witness:
  "FindMaterial ''wood''
      \<lparr>diffuseColor = (0, 0, 0), specularColor = (0, 0, 0), shininess = 0, tag = ''''\<rparr>
      (push_back \<lparr>diffuseColor = (0.6, 0.5, 0.4), specularColor = (0.5, 0.5, 0.5),
                  shininess = 128, tag = ''wood''\<rparr>
        (push_back \<lparr>diffuseColor = (0.6, 0.5, 0.4), specularColor = (0.5, 0.5, 0.5),
                    shininess = 64, tag = ''wood''\<rparr> example_scene))
    = (True, \<lparr>diffuseColor = (0.6, 0.5, 0.4), specularColor = (0.5, 0.5, 0.5),
              shininess = 64, tag = ''''\<rparr>)
   \<and> FindMaterial ''wood''
      \<lparr>diffuseColor = (0, 0, 0), specularColor = (0, 0, 0), shininess = 0, tag = ''''\<rparr>
      (example_scene\<lparr>m_objectMaterials :=
         [\<lparr>diffuseColor = (0.7, 0.7, 0.8), specularColor = (1, 1, 1),
            shininess = 128, tag = ''glass''\<rparr>,
          \<lparr>diffuseColor = (0.6, 0.5, 0.4), specularColor = (0.5, 0.5, 0.5),
            shininess = 64, tag = ''wood''\<rparr>,
          \<lparr>diffuseColor = (0.1, 0.2, 0.3), specularColor = (0.5, 0.5, 0.5),
            shininess = 128, tag = ''wood''\<rparr>,
          \<lparr>diffuseColor = (0.4, 0.4, 0.4), specularColor = (0.7, 0.7, 0.6),
            shininess = 52, tag = ''metal''\<rparr>]\<rparr>)
    = (True, \<lparr>diffuseColor = (0.6, 0.5, 0.4), specularColor = (0.5, 0.5, 0.5),
              shininess = 64, tag = ''''\<rparr>)
   \<and> FindMaterial ''wood''
      \<lparr>diffuseColor = (0, 0, 0), specularColor = (0, 0, 0), shininess = 0, tag = ''''\<rparr>
      (push_back \<lparr>diffuseColor = (0.6, 0.5, 0.4), specularColor = (0.5, 0.5, 0.5),
                  shininess = 128, tag = ''wood''\<rparr>
        (DefineObjectMaterials example_scene))
    = (True, \<lparr>diffuseColor = (0.6, 0.5, 0.4), specularColor = (0.5, 0.5, 0.5),
              shininess = 64, tag = ''''\<rparr>)"
proof -
  let ?mat = "\<lparr>diffuseColor = (0, 0, 0), specularColor = (0, 0, 0), shininess = 0, tag = ''''\<rparr>"
  let ?w64 = "\<lparr>diffuseColor = (0.6, 0.5, 0.4), specularColor = (0.5, 0.5, 0.5),
                shininess = 64, tag = ''wood''\<rparr>"
  let ?w128 = "\<lparr>diffuseColor = (0.6, 0.5, 0.4), specularColor = (0.5, 0.5, 0.5),
                 shininess = 128, tag = ''wood''\<rparr>"
  let ?v128 = "\<lparr>diffuseColor = (0.1, 0.2, 0.3), specularColor = (0.5, 0.5, 0.5),
                 shininess = 128, tag = ''wood''\<rparr>"
  let ?glass = "\<lparr>diffuseColor = (0.7, 0.7, 0.8), specularColor = (1, 1, 1),
                  shininess = 128, tag = ''glass''\<rparr>"
  let ?metal = "\<lparr>diffuseColor = (0.4, 0.4, 0.4), specularColor = (0.7, 0.7, 0.6),
                  shininess = 52, tag = ''metal''\<rparr>"
  let ?s = "example_scene\<lparr>m_objectMaterials := [?glass, ?w64, ?v128, ?metal]\<rparr>"
  have t: "OBJECT_MATERIAL.tag ?w64 = ''wood''" by simp
  have e0: "\<forall>x\<in>set ([]::OBJECT_MATERIAL list). OBJECT_MATERIAL.tag x \<noteq> ''wood''" by simp
  have e1: "\<forall>x\<in>set [?glass]. OBJECT_MATERIAL.tag x \<noteq> ''wood''" by simp
  have m0: "m_objectMaterials example_scene = []" by (simp add: example_scene_def)
  have 1: "FindMaterial ''wood'' ?mat (push_back ?w128 (push_back ?w64 example_scene))
             = (True, ?mat\<lparr>diffuseColor := diffuseColor ?w64, specularColor := specularColor ?w64,
                            shininess := shininess ?w64\<rparr>)"
    using FindMaterial_first_inserted_wins [OF e0 t, of ?w64 example_scene "[]" ?mat ?w128] m0
    by simp
  have 2: "FindMaterial ''wood'' ?mat ?s
             = (True, ?mat\<lparr>diffuseColor := diffuseColor ?w64, specularColor := specularColor ?w64,
                            shininess := shininess ?w64\<rparr>)"
  proof -
    have l: "m_objectMaterials ?s = [?glass] @ ?w64 # [?v128, ?metal]" by simp
    from FindMaterial_first_inserted_wins [OF e1 t, of ?w64 ?s "[?v128, ?metal]" ?mat ?w128] l
    show ?thesis by blast
  qed
  have 3: "FindMaterial ''wood'' ?mat (push_back ?w128 (DefineObjectMaterials example_scene))
             = (True, ?mat\<lparr>diffuseColor := (0.6, 0.5, 0.4), specularColor := (0.5, 0.5, 0.5),
                            shininess := 64\<rparr>)"
  proof -
    have n: "\<forall>x\<in>set (m_objectMaterials example_scene). OBJECT_MATERIAL.tag x \<noteq> ''wood''"
      using m0 by simp
    have "\<forall>later. FindMaterial ''wood'' ?mat (fold push_back later (DefineObjectMaterials example_scene)) =
                (True, ?mat\<lparr>diffuseColor := (0.6, 0.5, 0.4), specularColor := (0.5, 0.5, 0.5),
                           shininess := 64\<rparr>)"
      using FindMaterial_first_inserted_wins [OF e0 t, of ?w64 example_scene "[]" ?mat ?w128] n
      by blast
    from this [rule_format, of "[?w128]"] show ?thesis by simp
  qed
  show ?thesis using 1 2 3 by simp
qed

text \<open>
  Claim C2. The material half of the claim, run on the code: with the five materials of
  \<^const>\<open>DefineObjectMaterials\<close> defined, looking up the tag "plastic", which none of them
  has, returns \<open>true\<close> and the caller's material untouched. (The slot lookup does return
  \<open>-1\<close> for a tag that no loaded entry has: lemma \<open>FindTextureSlot_miss\<close>.)
\<close>
theorem FindMaterial_unknown_tag_reports_found:
  "FindMaterial ''plastic''
      \<lparr>diffuseColor = (0, 0, 0), specularColor = (0, 0, 0), shininess = 0, tag = ''''\<rparr>
      (DefineObjectMaterials example_scene)
    = (True, \<lparr>diffuseColor = (0, 0, 0), specularColor = (0, 0, 0), shininess = 0, tag = ''''\<rparr>)"
  by (rule FindMaterial_miss)
     (simp_all add: DefineObjectMaterials_def push_back_def example_scene_def)

section \<open>Properties of the shader selection\<close>

text \<open>
  Claim C10. With a shader manager present (and the registry counter within the array, so
  that the slot lookup is defined), \<^const>\<open>SetShaderColor\<close> stores 0 under the use-texture
  uniform and the given RGBA under the colour uniform, and \<^const>\<open>SetShaderTexture\<close> stores
  1 under the use-texture uniform. Calling one after the other leaves the flag of the
  later call: colour after texture gives 0, texture after colour gives 1.
\<close>
theorem color_and_texture_set_the_flag:
  assumes "m_pShaderManager s = Some sh"
    and "m_loadedTextures s \<le> int (length (m_textureIDs s))"
  shows "uniform_value g_UseTextureName (SetShaderColor r g b a s) = Some (UInt 0)
       \<and> uniform_value g_ColorValueName (SetShaderColor r g b a s) = Some (UVec4 (Vec4 r g b a))
       \<and> (\<exists>s'. SetShaderTexture tg s = Inr s'
               \<and> uniform_value g_UseTextureName s' = Some (UInt 1)
               \<and> uniform_value g_UseTextureName (SetShaderColor r g b a s') = Some (UInt 0))
       \<and> (\<exists>s'. SetShaderTexture tg (SetShaderColor r g b a s) = Inr s'
               \<and> uniform_value g_UseTextureName s' = Some (UInt 1))"
proof -
  obtain k where k: "FindTextureSlot tg s = Inr k"
    using FindTextureSlot_total [OF assms(2)] by blast
  have c: "m_loadedTextures (SetShaderColor r g b a s)
             \<le> int (length (m_textureIDs (SetShaderColor r g b a s)))"
    using assms by (simp add: SetShaderColor_def)
  obtain k' where k': "FindTextureSlot tg (SetShaderColor r g b a s) = Inr k'"
    using FindTextureSlot_total [OF c] by blast
  have 1: "uniform_value g_UseTextureName (SetShaderColor r g b a s) = Some (UInt 0)"
    using assms(1)
    by (simp add: uniform_value_def SetShaderColor_def setVec4Value_def setIntValue_def
          g_UseTextureName_def g_ColorValueName_def)
  have 2: "uniform_value g_ColorValueName (SetShaderColor r g b a s) = Some (UVec4 (Vec4 r g b a))"
    using assms(1)
    by (simp add: uniform_value_def SetShaderColor_def setVec4Value_def setIntValue_def)
  have 3: "\<exists>s'. SetShaderTexture tg s = Inr s'
               \<and> uniform_value g_UseTextureName s' = Some (UInt 1)
               \<and> uniform_value g_UseTextureName (SetShaderColor r g b a s') = Some (UInt 0)"
    using assms(1) k
    by (simp add: uniform_value_def SetShaderTexture_def SetShaderColor_def setVec4Value_def
          setIntValue_def setSampler2DValue_def g_UseTextureName_def g_TextureValueName_def
          g_ColorValueName_def)
  have tex: "\<exists>t'. SetShaderTexture tg t = Inr t'
               \<and> uniform_value g_UseTextureName t' = Some (UInt 1)"
    if "m_pShaderManager t = Some sh'" and "FindTextureSlot tg t = Inr j" for t sh' j
    using that
    by (simp add: uniform_value_def SetShaderTexture_def setIntValue_def setSampler2DValue_def
          g_UseTextureName_def g_TextureValueName_def)
  have "\<exists>sh'. m_pShaderManager (SetShaderColor r g b a s) = Some sh'"
    using assms(1) by (simp add: SetShaderColor_def)
  then have 4: "\<exists>s'. SetShaderTexture tg (SetShaderColor r g b a s) = Inr s'
               \<and> uniform_value g_UseTextureName s' = Some (UInt 1)"
    using tex k' by blast
  show ?thesis using 1 2 3 4 by blast
qed

lemma example_scene_shader:
  "m_pShaderManager example_scene = Some (\<lambda>name. None)"
  "m_loadedTextures example_scene \<le> int (length (m_textureIDs example_scene))"
  by (simp_all add: example_scene_def)

theorem color_and_texture_set_the_flag_witness:
  "uniform_value g_UseTextureName (SetShaderColor 1 1 1 1 example_scene) = Some (UInt 0)
   \<and> uniform_value g_ColorValueName (SetShaderColor 1 1 1 1 example_scene)
        = Some (UVec4 (Vec4 1 1 1 1))
   \<and> (\<exists>s'. SetShaderTexture ''wood'' example_scene = Inr s'
           \<and> uniform_value g_UseTextureName s' = Some (UInt 1))"
  using color_and_texture_set_the_flag [OF example_scene_shader, of 1 1 1 1 "''wood''"]
  by blast

subsection \<open>The material registry does not reach the shader\<close>

text \<open>
  Replacing the material registry commutes with every method except
  \<^const>\<open>DefineObjectMaterials\<close>, which only appends to it.
\<close>
lemma textureIDs_at_materials [simp]:
  "textureIDs_at (s\<lparr>m_objectMaterials := ms\<rparr>) i = textureIDs_at s i"
  by (simp add: textureIDs_at_def)

lemma FindTextureSlot_while_materials:
  "FindTextureSlot_while (s\<lparr>m_objectMaterials := ms\<rparr>) tg st = FindTextureSlot_while s tg st"
proof (induction s tg st rule: FindTextureSlot_while.induct)
  case (1 s tg textureSlot index bFound)
  show ?case
  proof (cases "index < m_loadedTextures s \<and> bFound = False")
    case False
    have "FindTextureSlot_while (s\<lparr>m_objectMaterials := ms\<rparr>) tg (textureSlot, index, bFound)
            = Inr textureSlot"
      using False by (subst FindTextureSlot_while.simps) auto
    moreover have "FindTextureSlot_while s tg (textureSlot, index, bFound) = Inr textureSlot"
      using False by (subst FindTextureSlot_while.simps) auto
    ultimately show ?thesis by simp
  next
    case True
    show ?thesis
    proof (cases "textureIDs_at s index")
      case (Inl e)
      then show ?thesis using True by (simp add: FindTextureSlot_while.simps)
    next
      case (Inr entry)
      show ?thesis
      proof (cases "TEXTURE_INFO.tag entry = tg")
        case hit: True
        have "FindTextureSlot_while (s\<lparr>m_objectMaterials := ms\<rparr>) tg (textureSlot, index, bFound)
                = FindTextureSlot_while (s\<lparr>m_objectMaterials := ms\<rparr>) tg (index, index, True)"
          using True Inr hit by (subst FindTextureSlot_while.simps) simp
        also have "\<dots> = FindTextureSlot_while s tg (index, index, True)"
          using "1.IH"(1) [OF True Inr hit] .
        also have "\<dots> = FindTextureSlot_while s tg (textureSlot, index, bFound)"
          using True Inr hit by (subst (2) FindTextureSlot_while.simps) simp
        finally show ?thesis .
      next
        case miss: False
        have "FindTextureSlot_while (s\<lparr>m_objectMaterials := ms\<rparr>) tg (textureSlot, index, bFound)
                = FindTextureSlot_while (s\<lparr>m_objectMaterials := ms\<rparr>) tg
                    (textureSlot, index + 1, bFound)"
          using True Inr miss by (subst FindTextureSlot_while.simps) simp
        also have "\<dots> = FindTextureSlot_while s tg (textureSlot, index + 1, bFound)"
          using "1.IH"(2) [OF True Inr miss] .
        also have "\<dots> = FindTextureSlot_while s tg (textureSlot, index, bFound)"
          using True Inr miss by (subst (2) FindTextureSlot_while.simps) simp
        finally show ?thesis .
      qed
    qed
  qed
qed

lemma FindTextureSlot_materials:
  "FindTextureSlot tg (s\<lparr>m_objectMaterials := ms\<rparr>) = FindTextureSlot tg s"
  by (simp add: FindTextureSlot_def FindTextureSlot_while_materials)

lemma BindGLTextures_for_materials:
  "BindGLTextures_for i (s\<lparr>m_objectMaterials := ms\<rparr>) =
     map_sum id (\<lambda>s'. s'\<lparr>m_objectMaterials := ms\<rparr>) (BindGLTextures_for i s)"
proof (induction i s rule: BindGLTextures_for.induct)
  case (1 i s)
  show ?case
  proof (cases "i < m_loadedTextures s")
    case False
    then show ?thesis by (simp add: BindGLTextures_for.simps)
  next
    case True
    show ?thesis
    proof (cases "textureIDs_at s i")
      case (Inl e)
      then show ?thesis using True by (simp add: BindGLTextures_for.simps)
    next
      case (Inr entry)
      let ?s1 = "s\<lparr>gl := glBindTexture (ID entry) (glActiveTexture i (gl s))\<rparr>"
      have c: "s\<lparr>m_objectMaterials := ms,
                 gl := glBindTexture (ID entry) (glActiveTexture i (gl s))\<rparr>
                 = ?s1\<lparr>m_objectMaterials := ms\<rparr>"
        by simp
      have "BindGLTextures_for i (s\<lparr>m_objectMaterials := ms\<rparr>) =
              BindGLTextures_for (i + 1) (?s1\<lparr>m_objectMaterials := ms\<rparr>)"
        using True Inr by (subst BindGLTextures_for.simps) (simp add: c)
      also have "\<dots> = map_sum id (\<lambda>s'. s'\<lparr>m_objectMaterials := ms\<rparr>)
                          (BindGLTextures_for (i + 1) ?s1)"
        using "1.IH" [OF True Inr] .
      also have "BindGLTextures_for (i + 1) ?s1 = BindGLTextures_for i s"
        using True Inr by (subst (2) BindGLTextures_for.simps) simp
      finally show ?thesis .
    qed
  qed
qed

lemma DestroyGLTextures_for_materials:
  "DestroyGLTextures_for i (s\<lparr>m_objectMaterials := ms\<rparr>) =
     map_sum id (\<lambda>s'. s'\<lparr>m_objectMaterials := ms\<rparr>) (DestroyGLTextures_for i s)"
proof (induction i s rule: DestroyGLTextures_for.induct)
  case (1 i s)
  show ?case
  proof (cases "i < m_loadedTextures s")
    case False
    then show ?thesis by (simp add: DestroyGLTextures_for.simps)
  next
    case True
    show ?thesis
    proof (cases "textureIDs_at s i")
      case (Inl e)
      then show ?thesis using True by (simp add: DestroyGLTextures_for.simps)
    next
      case (Inr entry)
      obtain n g where ng: "glGenTextures (gl s) = (n, g)" by (cases "glGenTextures (gl s)")
      let ?s1 = "s\<lparr>m_textureIDs := (m_textureIDs s)[nat i := entry\<lparr>ID := n\<rparr>], gl := g\<rparr>"
      have c: "s\<lparr>m_objectMaterials := ms,
                 m_textureIDs := (m_textureIDs s)[nat i := entry\<lparr>ID := n\<rparr>], gl := g\<rparr>
                 = ?s1\<lparr>m_objectMaterials := ms\<rparr>"
        by simp
      have "DestroyGLTextures_for i (s\<lparr>m_objectMaterials := ms\<rparr>) =
              DestroyGLTextures_for (i + 1) (?s1\<lparr>m_objectMaterials := ms\<rparr>)"
        using True Inr ng by (subst DestroyGLTextures_for.simps) (simp add: c)
      also have "\<dots> = map_sum id (\<lambda>s'. s'\<lparr>m_objectMaterials := ms\<rparr>)
                          (DestroyGLTextures_for (i + 1) ?s1)"
        using "1.IH" [OF True Inr ng [symmetric] refl] .
      also have "DestroyGLTextures_for (i + 1) ?s1 = DestroyGLTextures_for i s"
        using True Inr ng by (subst (2) DestroyGLTextures_for.simps) simp
      finally show ?thesis .
    qed
  qed
qed

lemma CreateGLTexture_materials:
  "CreateGLTexture fs filename tg (s\<lparr>m_objectMaterials := ms\<rparr>) =
     map_sum id (map_prod id (\<lambda>s'. s'\<lparr>m_objectMaterials := ms\<rparr>))
       (CreateGLTexture fs filename tg s)"
  by (auto simp: CreateGLTexture_def Let_def glGenTextures_def split: option.splits)

lemma CreateGLTextures_materials:
  "CreateGLTextures fs regs (s\<lparr>m_objectMaterials := ms\<rparr>) =
     map_sum id (map_prod id (\<lambda>s'. s'\<lparr>m_objectMaterials := ms\<rparr>))
       (CreateGLTextures fs regs s)"
proof (induction regs arbitrary: s)
  case Nil
  show ?case by simp
next
  case (Cons r regs)
  obtain filename tg where r: "r = (filename, tg)" by (cases r)
  show ?case unfolding r
    by (simp add: CreateGLTexture_materials Cons.IH split: sum.splits prod.splits)
qed

lemma SetShaderTexture_materials:
  "SetShaderTexture tg (s\<lparr>m_objectMaterials := ms\<rparr>) =
     map_sum id (\<lambda>s'. s'\<lparr>m_objectMaterials := ms\<rparr>) (SetShaderTexture tg s)"
  by (simp add: SetShaderTexture_def FindTextureSlot_materials split: option.splits sum.splits)

lemma SetShaderMaterial_is_SetShaderTexture: "SetShaderMaterial tg s = SetShaderTexture tg s"
  by (simp add: SetShaderMaterial_def SetShaderTexture_def)

lemma call_materials:
  assumes "m \<noteq> M_DefineObjectMaterials"
  shows "call fs m (s\<lparr>m_objectMaterials := ms\<rparr>) =
     map_sum id (\<lambda>s'. s'\<lparr>m_objectMaterials := ms\<rparr>) (call fs m s)"
proof (cases m)
  case (M_CreateGLTexture filename tg)
  then show ?thesis
    by (simp add: CreateGLTexture_materials sum.map_comp comp_def split: sum.splits)
next
  case M_BindGLTextures
  then show ?thesis by (simp add: BindGLTextures_def BindGLTextures_for_materials)
next
  case M_DestroyGLTextures
  then show ?thesis by (simp add: DestroyGLTextures_def DestroyGLTextures_for_materials)
next
  case (M_SetTransformations sc rx ry rz p)
  then show ?thesis by (simp add: SetTransformations_def Let_def split: option.splits)
next
  case (M_SetShaderColor r g b a)
  then show ?thesis by (simp add: SetShaderColor_def Let_def split: option.splits)
next
  case (M_SetShaderTexture tg)
  then show ?thesis by (simp add: SetShaderTexture_materials)
next
  case (M_SetTextureUVScale u v)
  then show ?thesis by (simp add: SetTextureUVScale_def split: option.splits)
next
  case (M_SetShaderMaterial tg)
  then show ?thesis
    by (simp add: SetShaderMaterial_is_SetShaderTexture SetShaderTexture_materials)
next
  case M_LoadSceneTextures
  then show ?thesis
    by (simp add: LoadSceneTextures_def CreateGLTextures_materials BindGLTextures_def
          BindGLTextures_for_materials split: sum.splits prod.splits)
next
  case M_DefineObjectMaterials
  then show ?thesis using assms by simp
next
  case M_SetupSceneLights
  then show ?thesis by (simp add: SetupSceneLights_def split: option.splits)
qed

lemma same_but_materials_update:
  "same_but_materials a b \<Longrightarrow> same_but_materials (a\<lparr>m_objectMaterials := x\<rparr>) (b\<lparr>m_objectMaterials := y\<rparr>)"
  unfolding same_but_materials_def
  by (metis (no_types) SceneManager.surjective SceneManager.update_convs(4))

lemma call_same_but_materials:
  assumes "same_but_materials a b"
  shows "rel_sum (=) same_but_materials (call fs m a) (call fs m b)"
proof (cases "m = M_DefineObjectMaterials")
  case True
  have "same_but_materials (DefineObjectMaterials a) (DefineObjectMaterials b)"
    using assms
    by (simp add: DefineObjectMaterials_def push_back_def Let_def same_but_materials_update)
  then show ?thesis using True by simp
next
  case False
  have b: "b = a\<lparr>m_objectMaterials := m_objectMaterials b\<rparr>"
    using assms by (simp add: same_but_materials_def)
  have "call fs m b = map_sum id (\<lambda>s'. s'\<lparr>m_objectMaterials := m_objectMaterials b\<rparr>) (call fs m a)"
    by (subst b) (rule call_materials [OF False])
  then show ?thesis
    by (cases "call fs m a") (simp_all add: same_but_materials_def)
qed

lemma calls_same_but_materials:
  assumes "same_but_materials a b"
  shows "rel_sum (=) same_but_materials (calls fs ops a) (calls fs ops b)"
  using assms
proof (induction ops arbitrary: a b)
  case Nil
  then show ?case by simp
next
  case (Cons m ops)
  note R = call_same_but_materials [OF Cons.prems, of fs m]
  show ?case
  proof (cases "call fs m a")
    case (Inl e)
    then have "call fs m b = Inl e" using R by (cases "call fs m b") auto
    then show ?thesis using Inl by simp
  next
    case (Inr a')
    then obtain b' where b': "call fs m b = Inr b'" "same_but_materials a' b'"
      using R by (cases "call fs m b") auto
    then show ?thesis using Inr Cons.IH [of a' b'] by simp
  qed
qed

text \<open>
  Claim C3. \<^const>\<open>SetShaderMaterial\<close> is \<^const>\<open>SetShaderTexture\<close>: on every tag and state the
  two return the same. With a shader manager present and a defined slot lookup the result
  is the state whose shader has 1 stored under the use-texture uniform and the slot of
  the tag, looked up in the texture registry, under the sampler uniform. The material
  registry is never read: replacing it before the call is the same as replacing it after.
  And no sequence of state-changing methods lets it reach the shader: the shader state
  after the sequence is the same whatever the material registry was at the start.
\<close>
theorem SetShaderMaterial_is_texture_selection:
  "SetShaderMaterial tg s = SetShaderTexture tg s
   \<and> (\<forall>sh k. m_pShaderManager s = Some sh \<and> FindTextureSlot tg s = Inr k \<longrightarrow>
         SetShaderMaterial tg s =
           Inr (s\<lparr>m_pShaderManager :=
                    Some (sh(g_UseTextureName \<mapsto> UInt 1, g_TextureValueName \<mapsto> USampler2D k))\<rparr>))
   \<and> (\<forall>ms. SetShaderMaterial tg (s\<lparr>m_objectMaterials := ms\<rparr>) =
         map_sum id (\<lambda>s'. s'\<lparr>m_objectMaterials := ms\<rparr>) (SetShaderMaterial tg s))
   \<and> (\<forall>fs ops ms. map_sum id m_pShaderManager (calls fs ops (s\<lparr>m_objectMaterials := ms\<rparr>)) =
         map_sum id m_pShaderManager (calls fs ops s))"
proof (intro conjI allI impI)
  show "SetShaderMaterial tg s = SetShaderTexture tg s"
    by (rule SetShaderMaterial_is_SetShaderTexture)
next
  fix sh k assume "m_pShaderManager s = Some sh \<and> FindTextureSlot tg s = Inr k"
  then show "SetShaderMaterial tg s =
           Inr (s\<lparr>m_pShaderManager :=
                    Some (sh(g_UseTextureName \<mapsto> UInt 1, g_TextureValueName \<mapsto> USampler2D k))\<rparr>)"
    by (simp add: SetShaderMaterial_def setIntValue_def setSampler2DValue_def)
next
  fix ms
  show "SetShaderMaterial tg (s\<lparr>m_objectMaterials := ms\<rparr>) =
         map_sum id (\<lambda>s'. s'\<lparr>m_objectMaterials := ms\<rparr>) (SetShaderMaterial tg s)"
    by (simp add: SetShaderMaterial_is_SetShaderTexture SetShaderTexture_materials)
next
  fix fs ops ms
  have "same_but_materials s (s\<lparr>m_objectMaterials := ms\<rparr>)"
    by (simp add: same_but_materials_def)
  note R = calls_same_but_materials [OF this, of fs ops]
  show "map_sum id m_pShaderManager (calls fs ops (s\<lparr>m_objectMaterials := ms\<rparr>)) =
         map_sum id m_pShaderManager (calls fs ops s)"
  proof (cases "calls fs ops s")
    case (Inl e)
    then have "calls fs ops (s\<lparr>m_objectMaterials := ms\<rparr>) = Inl e"
      using R by (cases "calls fs ops (s\<lparr>m_objectMaterials := ms\<rparr>)") auto
    then show ?thesis using Inl by simp
  next
    case (Inr a')
    then obtain b' where b': "calls fs ops (s\<lparr>m_objectMaterials := ms\<rparr>) = Inr b'"
        "same_but_materials a' b'"
      using R by (cases "calls fs ops (s\<lparr>m_objectMaterials := ms\<rparr>)") auto
    have "m_pShaderManager b' = m_pShaderManager a'"
      by (subst b' (2) [unfolded same_but_materials_def]) simp
    then show ?thesis using Inr b' by simp
  qed
qed

theorem SetShaderMaterial_is_texture_selection_witness:
  "SetShaderMaterial ''wood'' example_scene = SetShaderTexture ''wood'' example_scene
   \<and> SetShaderMaterial ''wood'' example_scene =
       Inr (example_scene\<lparr>m_pShaderManager :=
              Some ((\<lambda>name. None)(g_UseTextureName \<mapsto> UInt 1,
                                   g_TextureValueName \<mapsto> USampler2D (- 1)))\<rparr>)
   \<and> map_sum id m_pShaderManager
        (calls example_files [M_SetShaderMaterial ''wood'']
           (example_scene\<lparr>m_objectMaterials :=
              m_objectMaterials (DefineObjectMaterials example_scene)\<rparr>))
     = Inr (Some ((\<lambda>name. None)(g_UseTextureName \<mapsto> UInt 1,
                                 g_TextureValueName \<mapsto> USampler2D (- 1))))"
proof -
  have e: "m_pShaderManager example_scene = Some (\<lambda>name. None)"
    by (simp add: example_scene_def)
  have k: "FindTextureSlot ''wood'' example_scene = Inr (- 1)"
    by (rule FindTextureSlot_miss) (simp_all add: example_scene_def)
  note t = SetShaderMaterial_is_texture_selection [of "''wood''" example_scene]
  have 1: "SetShaderMaterial ''wood'' example_scene = SetShaderTexture ''wood'' example_scene"
    using t by blast
  have 2: "SetShaderMaterial ''wood'' example_scene =
       Inr (example_scene\<lparr>m_pShaderManager :=
              Some ((\<lambda>name. None)(g_UseTextureName \<mapsto> UInt 1,
                                   g_TextureValueName \<mapsto> USampler2D (- 1)))\<rparr>)"
    using t e k by blast
  have "map_sum id m_pShaderManager
        (calls example_files [M_SetShaderMaterial ''wood'']
           (example_scene\<lparr>m_objectMaterials :=
              m_objectMaterials (DefineObjectMaterials example_scene)\<rparr>))
     = map_sum id m_pShaderManager
        (calls example_files [M_SetShaderMaterial ''wood''] example_scene)"
    using t by blast
  also have "\<dots> = Inr (Some ((\<lambda>name. None)(g_UseTextureName \<mapsto> UInt 1,
                                 g_TextureValueName \<mapsto> USampler2D (- 1))))"
    by (simp add: 2)
  finally show ?thesis using 1 2 by blast
qed

section \<open>Properties of the transform pipeline\<close>

text \<open>The matrices that GLM builds for a scale, a translation and the three axis rotations.\<close>
lemma glm_scale_matrix:
  "glm_scale (kx, ky, kz) = Mat4 (Vec4 kx 0 0 0) (Vec4 0 ky 0 0) (Vec4 0 0 kz 0) (Vec4 0 0 0 1)"
  by (simp add: glm_scale_def mat4_identity_def)

lemma glm_translate_matrix:
  "glm_translate (px, py, pz) = Mat4 (Vec4 1 0 0 0) (Vec4 0 1 0 0) (Vec4 0 0 1 0) (Vec4 px py pz 1)"
  by (simp add: glm_translate_def mat4_identity_def)

lemma glm_rotate_X:
  "glm_rotate t (1, 0, 0) =
     Mat4 (Vec4 1 0 0 0) (Vec4 0 (cos t) (sin t) 0) (Vec4 0 (- sin t) (cos t) 0) (Vec4 0 0 0 1)"
  by (simp add: glm_rotate_def mat4_identity_def glm_normalize_def Let_def)

lemma glm_rotate_Y:
  "glm_rotate t (0, 1, 0) =
     Mat4 (Vec4 (cos t) 0 (- sin t) 0) (Vec4 0 1 0 0) (Vec4 (sin t) 0 (cos t) 0) (Vec4 0 0 0 1)"
  by (simp add: glm_rotate_def mat4_identity_def glm_normalize_def Let_def)

lemma glm_rotate_Z:
  "glm_rotate t (0, 0, 1) =
     Mat4 (Vec4 (cos t) (sin t) 0 0) (Vec4 (- sin t) (cos t) 0 0) (Vec4 0 0 1 0) (Vec4 0 0 0 1)"
  by (simp add: glm_rotate_def mat4_identity_def glm_normalize_def Let_def)

lemma modelView_identity:
  "SetTransformations_modelView (1, 1, 1) 0 0 0 (0, 0, 0) = mat4_identity"
  by (simp add: SetTransformations_modelView_def glm_scale_matrix glm_translate_matrix
        glm_rotate_X glm_rotate_Y glm_rotate_Z glm_radians_def mat4_identity_def)

lemma modelView_on_points:
  "mat4_mul_vec4 (SetTransformations_modelView sc rx ry rz p) (point v) =
     point (spec_computeModelMatrix sc rx ry rz p v)"
proof -
  obtain kx ky kz where sc: "sc = (kx, ky, kz)" by (cases sc)
  obtain px py pz where p: "p = (px, py, pz)" by (cases p)
  obtain x y z where v: "v = (x, y, z)" by (cases v)
  show ?thesis
    unfolding sc p v
    by (simp add: SetTransformations_modelView_def glm_scale_matrix glm_translate_matrix
          glm_rotate_X glm_rotate_Y glm_rotate_Z glm_radians_def point_def
          spec_computeModelMatrix_def spec_translation_def spec_rotateX_def spec_rotateY_def
          spec_rotateZ_def spec_scale_def Let_def algebra_simps)
qed

text \<open>
  Claim C1. The matrix that \<^const>\<open>SetTransformations\<close> computes is the product
  translation * rotationZ * rotationY * rotationX * scale, in this order. Applied to a
  point it is the composition of the spec: scale first, then the rotation about X, then
  about Y, then about Z, then the translation. For scale (1,1,1), rotations 0 and position
  (0,0,0) it is the identity matrix. When a shader manager is present, the matrix is what
  the call stores under the model uniform.
\<close>
theorem SetTransformations_model_matrix:
  "SetTransformations_modelView sc rx ry rz p =
     mat4_mul (mat4_mul (mat4_mul (mat4_mul (glm_translate p)
       (glm_rotate (glm_radians rz) (0, 0, 1))) (glm_rotate (glm_radians ry) (0, 1, 0)))
       (glm_rotate (glm_radians rx) (1, 0, 0))) (glm_scale sc)
   \<and> (\<forall>v. mat4_mul_vec4 (SetTransformations_modelView sc rx ry rz p) (point v) =
            point (spec_computeModelMatrix sc rx ry rz p v))
   \<and> SetTransformations_modelView (1, 1, 1) 0 0 0 (0, 0, 0) = mat4_identity
   \<and> (\<forall>sh. m_pShaderManager s = Some sh \<longrightarrow>
         uniform_value g_ModelName (SetTransformations sc rx ry rz p s) =
           Some (UMat4 (SetTransformations_modelView sc rx ry rz p))
       \<and> uniform_value g_ModelName (SetTransformations (1, 1, 1) 0 0 0 (0, 0, 0) s) =
           Some (UMat4 mat4_identity))"
proof (intro conjI allI impI)
  show "SetTransformations_modelView sc rx ry rz p =
     mat4_mul (mat4_mul (mat4_mul (mat4_mul (glm_translate p)
       (glm_rotate (glm_radians rz) (0, 0, 1))) (glm_rotate (glm_radians ry) (0, 1, 0)))
       (glm_rotate (glm_radians rx) (1, 0, 0))) (glm_scale sc)"
    by (simp add: SetTransformations_modelView_def)
next
  fix v
  show "mat4_mul_vec4 (SetTransformations_modelView sc rx ry rz p) (point v) =
            point (spec_computeModelMatrix sc rx ry rz p v)"
    by (rule modelView_on_points)
next
  show "SetTransformations_modelView (1, 1, 1) 0 0 0 (0, 0, 0) = mat4_identity"
    by (rule modelView_identity)
next
  fix sh assume sh: "m_pShaderManager s = Some sh"
  show "uniform_value g_ModelName (SetTransformations sc rx ry rz p s) =
           Some (UMat4 (SetTransformations_modelView sc rx ry rz p))"
    using sh by (simp add: uniform_value_def SetTransformations_def setMat4Value_def)
  show "uniform_value g_ModelName (SetTransformations (1, 1, 1) 0 0 0 (0, 0, 0) s) =
           Some (UMat4 mat4_identity)"
    using sh
    by (simp add: uniform_value_def SetTransformations_def setMat4Value_def modelView_identity)
qed

theorem SetTransformations_model_matrix_witness:
  "uniform_value g_ModelName (SetTransformations (1, 1, 1) 0 0 0 (0, 0, 0) example_scene)
     = Some (UMat4 mat4_identity)
   \<and> mat4_mul_vec4 (SetTransformations_modelView (1, 1, 1) 0 90 0 (5, 0, 0)) (point (0, 0, 1))
     = point (6, 0, 0)"
proof -
  have e: "m_pShaderManager example_scene = Some (\<lambda>name. None)"
    by (simp add: example_scene_def)
  have half: "(90::real) * pi / 180 = pi / 2" by simp
  have c: "spec_computeModelMatrix (1, 1, 1) 0 90 0 (5, 0, 0) (0, 0, 1) = (6, 0, 0)"
    by (simp add: spec_computeModelMatrix_def spec_translation_def spec_rotateX_def
          spec_rotateY_def spec_rotateZ_def spec_scale_def half)
  note t = SetTransformations_model_matrix [of "(1, 1, 1)" 0 90 0 "(5, 0, 0)" example_scene]
  have 1: "uniform_value g_ModelName (SetTransformations (1, 1, 1) 0 0 0 (0, 0, 0) example_scene)
     = Some (UMat4 mat4_identity)"
    using t e by blast
  have "mat4_mul_vec4 (SetTransformations_modelView (1, 1, 1) 0 90 0 (5, 0, 0)) (point (0, 0, 1))
     = point (spec_computeModelMatrix (1, 1, 1) 0 90 0 (5, 0, 0) (0, 0, 1))"
    using t by blast
  then show ?thesis using 1 c by simp
qed

end
